theory Spec2Isabelle
  imports Complex_Main
begin

section \<open>Data model (types.ts)\<close>

text \<open>
  JavaScript numbers are modelled as mathematical reals: every result below is about the
  exact arithmetic the source text describes, not about IEEE rounding. \<open>Math.floor\<close> is
  the integer floor, \<open>Math.pow(b, 2)\<close> is the square, and \<open>Math.pow(b, 1.5)\<close> (only ever
  applied to a non-negative base) is \<open>b powr 1.5\<close>.
\<close>

datatype PlanetType = MARS | MOON | SATURN | SATURN_RINGS | NEPTUNE | URANUS | SPACECRAFT

datatype TerrainProfile = shield | ridge | cloud | pipe

datatype WeatherType = none | dust_storm | diamond_rain | snow | debris

datatype ScatterType = rock | ice | no_scatter | tech

record PlanetConfig =
  name :: PlanetType
  gravity :: real
  atmosphereDensity :: real
  groundColor :: string
  skyColor :: string
  fogColor :: string
  mountainHeight :: real
  terrainRoughness :: real
  accentColor :: string
  stars :: bool
  description :: string
  hasWater :: "bool option"
  scatterType :: "ScatterType option"
  terrainProfile :: TerrainProfile
  weather :: WeatherType
  locked :: "bool option"

datatype GameState = MENU | PLAYING | PAUSED | FINISHED | CRASHED

record vec3 =
  vx :: real
  vy :: real
  vz :: real

section \<open>Noise kernel (utils/terrain.ts)\<close>

definition fract :: "real \<Rightarrow> real" where
  "fract x = x - of_int \<lfloor>x\<rfloor>"

definition hash :: "real \<Rightarrow> real \<Rightarrow> real" where
  "hash x z = fract (sin (x * 12.9898 + z * 78.233) * 43758.5453)"

text \<open>2D value noise.\<close>

definition noise :: "real \<Rightarrow> real \<Rightarrow> real" where
  "noise x z =
     (let iX = of_int \<lfloor>x\<rfloor>;
          iZ = of_int \<lfloor>z\<rfloor>;
          fX = fract x;
          fZ = fract z;
          uX = fX * fX * (3.0 - 2.0 * fX);
          uZ = fZ * fZ * (3.0 - 2.0 * fZ);
          a = hash iX iZ;
          b = hash (iX + 1.0) iZ;
          c = hash iX (iZ + 1.0);
          d = hash (iX + 1.0) (iZ + 1.0)
      in (a * (1.0 - uX) + b * uX) * (1.0 - uZ) +
         (c * (1.0 - uX) + d * uX) * uZ)"

text \<open>
  Fractal Brownian motion. The \<open>for\<close> loop over \<open>i < octaves\<close> is the recursion
  \<open>fbm_loop\<close> on the number of octaves still to run, carrying the loop variables
  \<open>total\<close> (written \<open>total'\<close>), \<open>amplitude\<close> and \<open>frequency\<close>.
\<close>

fun fbm_loop :: "nat \<Rightarrow> real \<Rightarrow> real \<Rightarrow> real \<Rightarrow> real \<Rightarrow> real \<Rightarrow> real \<Rightarrow> real \<Rightarrow> real" where
  "fbm_loop 0 x z persistence lacunarity total' amplitude frequency = total'"
| "fbm_loop (Suc n) x z persistence lacunarity total' amplitude frequency =
     fbm_loop n x z persistence lacunarity
       (total' + noise (x * frequency) (z * frequency) * amplitude)
       (amplitude * persistence)
       (frequency * lacunarity)"

definition fbm :: "real \<Rightarrow> real \<Rightarrow> nat \<Rightarrow> real \<Rightarrow> real \<Rightarrow> real" where
  "fbm x z octaves persistence lacunarity =
     fbm_loop octaves x z persistence lacunarity 0 1 1"

section \<open>Terrain height field (utils/terrain.ts)\<close>

text \<open>
  \<open>WORLD_LENGTH\<close> is imported from constants.ts, which is not part of the sources at
  hand; it is the first parameter \<open>wl\<close> of every function that reads it. The local
  variables of \<open>getTerrainHeight\<close> that the properties speak about (\<open>slopeHeight\<close>,
  the Mars block's \<open>terrain\<close>, \<open>profileHeight\<close>, \<open>finalNoise\<close>, \<open>microNoise\<close>)
  are definitions of their own, in the order the source computes them.
\<close>

definition zProgress :: "real \<Rightarrow> real \<Rightarrow> real" where
  "zProgress wl z = (z + wl / 2) / wl"

definition slopeHeight :: "real \<Rightarrow> real \<Rightarrow> PlanetConfig \<Rightarrow> real" where
  "slopeHeight wl z planet = (1 - zProgress wl z) * mountainHeight planet"

text \<open>The Mars block (Olympus Mons lava channel): the value of \<open>terrain\<close> at its end.\<close>

definition marsTerrain :: "real \<Rightarrow> real \<Rightarrow> real" where
  "marsTerrain x z =
     (let absX = \<bar>x\<bar>;
          channelWidth = 140;
          terrain0 = (absX / channelWidth)\<^sup>2 * 5;
          terrain1 =
            (if absX > channelWidth then
               (let dist = absX - channelWidth;
                    rampWidth = 200;
                    rampProgress = min (dist / rampWidth) 1.0;
                    smoothRamp = rampProgress * rampProgress * (3 - 2 * rampProgress);
                    leveeHeight = 80;
                    t1 = terrain0 + smoothRamp * leveeHeight;
                    lobes = noise (x * 0.003) (z * 0.003);
                    t2 = t1 + lobes * 50 * rampProgress
                in if dist > rampWidth
                   then (let dropDist = dist - rampWidth
                         in t2 - (dropDist powr 1.5) * 0.005)
                   else t2)
             else terrain0);
          surfaceNoise = fbm (x * 0.02) (z * 0.02) 3 0.5 2.0
      in terrain1 + (surfaceNoise - 0.5) * 10)"

definition profileHeight :: "real \<Rightarrow> PlanetConfig \<Rightarrow> real" where
  "profileHeight x planet =
     (let absX = \<bar>x\<bar>
      in if terrainProfile planet = ridge then
           max (- ((absX / 10) powr 1.5) * 2) (-3000)
         else if terrainProfile planet = cloud then
           cos (x * 0.005) * 50 - absX\<^sup>2 / 6000
         else if terrainProfile planet = pipe then
           max (- ((absX / 40)\<^sup>2) * 5) (-2000)
         else if terrainProfile planet = shield then
           - (absX\<^sup>2) / 4500
         else 0)"

definition finalNoise :: "real \<Rightarrow> real \<Rightarrow> PlanetConfig \<Rightarrow> real" where
  "finalNoise x z planet =
     (let absX = \<bar>x\<bar>;
          largeScale = 0.0005;
          terrainNoise = fbm (x * largeScale) (z * largeScale) 4 0.5 2.0;
          noiseAmplitude =
            (if terrainProfile planet = pipe then 50 else 500 * terrainRoughness planet);
          fn0 = (terrainNoise - 0.5) * noiseAmplitude;
          fn1 = (if absX < 150 then fn0 * 0.15 else fn0)
      in if absX \<ge> 150 then
           (let cliffNoise = noise (x * 0.001) (z * 0.001);
                ramp = min ((absX - 150) / 1000) 1;
                cliffIntensity = ramp\<^sup>2;
                fn2 = fn1 + cliffNoise * 600 * cliffIntensity * terrainRoughness planet;
                detailNoise = noise (x * 0.01) (z * 0.01)
            in fn2 + detailNoise * 100 * cliffIntensity)
         else fn1)"

definition microNoise :: "real \<Rightarrow> real \<Rightarrow> PlanetConfig \<Rightarrow> real" where
  "microNoise x z planet =
     (let microScale = 0.8;
          m = noise (x * microScale) (z * microScale)
      in if name planet = MOON then m\<^sup>2 else m)"

definition getTerrainHeight :: "real \<Rightarrow> real \<Rightarrow> real \<Rightarrow> PlanetConfig \<Rightarrow> real" where
  "getTerrainHeight wl x z planet =
     (if name planet = MARS then
        slopeHeight wl z planet + marsTerrain x z - 200
      else
        (let microAmplitude = 1.0
         in slopeHeight wl z planet + profileHeight x planet + finalNoise x z planet
            + (microNoise x z planet * microAmplitude) - 200))"

section \<open>Terrain normal estimator (utils/terrain.ts)\<close>

text \<open>\<open>terrainNorm\<close> is the local \<open>norm\<close>, the vector before normalisation.\<close>

definition terrainNorm :: "real \<Rightarrow> real \<Rightarrow> real \<Rightarrow> PlanetConfig \<Rightarrow> vec3" where
  "terrainNorm wl x z planet =
     (let offset = 2.0;
          hL = getTerrainHeight wl (x - offset) z planet;
          hR = getTerrainHeight wl (x + offset) z planet;
          hD = getTerrainHeight wl x (z - offset) planet;
          hU = getTerrainHeight wl x (z + offset) planet
      in \<lparr> vx = hL - hR, vy = 2.0 * offset, vz = hD - hU \<rparr>)"

definition normLen :: "vec3 \<Rightarrow> real" where
  "normLen n = sqrt (vx n * vx n + vy n * vy n + vz n * vz n)"

definition getTerrainNormal :: "real \<Rightarrow> real \<Rightarrow> real \<Rightarrow> PlanetConfig \<Rightarrow> vec3" where
  "getTerrainNormal wl x z planet =
     (let n = terrainNorm wl x z planet;
          len = normLen n
      in \<lparr> vx = vx n / len, vy = vy n / len, vz = vz n / len \<rparr>)"

section \<open>Locomotion simulator (the Player component's frame callback)\<close>

text \<open>
  The refs of the component that the physics block reads and writes: \<open>position\<close>,
  \<open>velocity\<close>, \<open>speed\<close>, \<open>inputVector.x\<close>, \<open>frameCount\<close> and \<open>wasGrounded\<close>.
  The orientation quaternion, the rig animation, the camera and the HUD statistics are
  computed after the position is committed and never feed back into these refs; they are
  left out.
\<close>

record Keys =
  key_w :: bool
  key_a :: bool
  key_s :: bool
  key_d :: bool
  key_space :: bool

record Player =
  posX :: real
  posY :: real
  posZ :: real
  velX :: real
  velY :: real
  velZ :: real
  speed :: real
  inputX :: real
  frameCount :: nat
  wasGrounded :: bool

definition HOVER_TARGET :: real where "HOVER_TARGET = 1.0"
definition HOVER_STIFFNESS :: real where "HOVER_STIFFNESS = 1800.0"
definition HOVER_DAMPING :: real where "HOVER_DAMPING = 120.0"
definition MASS :: real where "MASS = 120"

definition startZ :: "real \<Rightarrow> real" where
  "startZ wl = - wl / 2 + 200"

definition initialSpawnHeight :: "real \<Rightarrow> PlanetConfig \<Rightarrow> real" where
  "initialSpawnHeight wl planet = getTerrainHeight wl 0 (startZ wl) planet + 5"

text \<open>The initial values of the refs, which the reset effect restores in the menu.\<close>

definition spawn :: "real \<Rightarrow> PlanetConfig \<Rightarrow> Player" where
  "spawn wl planet =
     \<lparr> posX = 0, posY = initialSpawnHeight wl planet, posZ = startZ wl,
       velX = 0, velY = 0, velZ = 0, speed = 0, inputX = 0,
       frameCount = 0, wasGrounded = False \<rparr>"

text \<open>\<open>THREE.MathUtils.lerp\<close>.\<close>

definition lerp :: "real \<Rightarrow> real \<Rightarrow> real \<Rightarrow> real" where
  "lerp x y t = (1 - t) * x + t * y"

text \<open>
  The physics block up to the candidate position \<open>nextPos\<close> (before the terrain is
  sampled there): the values of the refs and locals at that point.
\<close>

record Candidate =
  currentHeight :: real
  isGrounded :: bool
  landImpact :: "real option"
  forceY :: real
  jump :: bool
  c_velX :: real
  c_velY :: real
  c_speed :: real
  c_inputX :: real
  nextX :: real
  nextY :: real
  nextZ :: real

definition integrate :: "real \<Rightarrow> PlanetConfig \<Rightarrow> Keys \<Rightarrow> real \<Rightarrow> Player \<Rightarrow> Candidate" where
  "integrate wl planet keys dt p =
     (let terrainHeight = getTerrainHeight wl (posX p) (posZ p) planet;
          groundNormal = getTerrainNormal wl (posX p) (posZ p) planet;
          currentHeight' = posY p - terrainHeight;
          isGrounded' = (currentHeight' < HOVER_TARGET + 1.0);
          land = (if isGrounded' \<and> \<not> wasGrounded p \<and> velY p < -5
                  then Some \<bar>velY p\<bar> else None);
          forceY0 = - gravity planet * 600;
          forceY1 =
            (if currentHeight' < HOVER_TARGET + 3.0 then
               (let displacement = HOVER_TARGET - currentHeight';
                    springForce = displacement * HOVER_STIFFNESS;
                    dampingForce = - velY p * HOVER_DAMPING;
                    f = forceY0 + max 0 (springForce + dampingForce)
                in if \<not> key_space keys \<and> isGrounded'
                   then f - (800 + \<bar>speed p\<bar> * 10) else f)
             else forceY0);
          jump' = (key_space keys \<and> isGrounded' \<and> currentHeight' < HOVER_TARGET + 0.5);
          velY1 = (if jump' then 50 else velY p);
          velY2 = velY1 + forceY1 * dt / (MASS / 10);
          accel = 60;
          brake = 200;
          maxSpeed = 190;
          speed1 = (if key_w keys then speed p + accel * dt else speed p);
          speed2 = (if key_s keys then speed1 - brake * dt else speed1);
          speed3 = speed2 * 0.99;
          speed4 = min (max speed3 (-20)) maxSpeed;
          targetTurn = (if key_a keys then 1 else 0) + (if key_d keys then -1 else 0);
          inputX1 = lerp (inputX p) targetTurn (dt * 6);
          turnRate = 50 + speed4 * 0.1;
          velX1 = velX p + inputX1 * turnRate * dt;
          velX2 = velX1 * 0.88;
          velX3 = velX2 + vx groundNormal * gravity planet * 200 * dt;
          speed5 = (if vz groundNormal > 0
                    then speed4 + vz groundNormal * gravity planet * 100 * dt
                    else speed4)
      in \<lparr> currentHeight = currentHeight',
           isGrounded = isGrounded',
           landImpact = land,
           forceY = forceY1,
           jump = jump',
           c_velX = velX3,
           c_velY = velY2,
           c_speed = speed5,
           c_inputX = inputX1,
           nextX = posX p + velX3 * dt,
           nextY = posY p + velY2 * dt,
           nextZ = posZ p + (speed5 + 10) * dt \<rparr>)"

text \<open>
  The outcome of one frame: the refs, the game state (changed by \<open>setGameState\<close>), and
  the two audio triggers of the physics block.
\<close>

record Frame =
  player :: Player
  game :: GameState
  jumpTriggered :: bool
  landTriggered :: "real option"

text \<open>The wall test of the collision response, on the candidate position.\<close>

definition wallHit :: "real \<Rightarrow> PlanetConfig \<Rightarrow> Player \<Rightarrow> Candidate \<Rightarrow> bool" where
  "wallHit wl planet p c =
     (getTerrainHeight wl (nextX c) (nextZ c) planet - posY p > 5.0)"

text \<open>
  Ground clamp, wall response and commit of \<open>nextPos\<close>, followed by the frame counter of
  the statistics block.
\<close>

definition collide :: "real \<Rightarrow> PlanetConfig \<Rightarrow> Player \<Rightarrow> Candidate \<Rightarrow> Player" where
  "collide wl planet p c =
     (let nextTerrainHeight = getTerrainHeight wl (nextX c) (nextZ c) planet;
          penetrates = (nextY c < nextTerrainHeight + 0.5);
          nextY1 = (if penetrates then nextTerrainHeight + 0.5 else nextY c);
          velY3 = (if penetrates then 0 else c_velY c);
          wall = wallHit wl planet p c;
          speed6 = (if wall then c_speed c * 0.3 else c_speed c);
          velX4 = (if wall then c_velX c * (-0.5) else c_velX c);
          nextX1 = (if wall then posX p else nextX c)
      in p \<lparr> posX := nextX1, posY := nextY1, posZ := nextZ c,
             velX := velX4, velY := velY3,
             speed := speed6, inputX := c_inputX c,
             frameCount := frameCount p + 1,
             wasGrounded := isGrounded c \<rparr>)"

definition physics :: "real \<Rightarrow> PlanetConfig \<Rightarrow> Keys \<Rightarrow> real \<Rightarrow> Player \<Rightarrow> Frame" where
  "physics wl planet keys dt p =
     (let c = integrate wl planet keys dt p
      in \<lparr> player = collide wl planet p c, game = PLAYING,
           jumpTriggered = jump c, landTriggered = landImpact c \<rparr>)"

text \<open>
  The frame callback: nothing outside PLAYING and MENU, only the menu animation of the
  render group in MENU, the finish test, then the physics block.
\<close>

definition useFrame ::
  "real \<Rightarrow> PlanetConfig \<Rightarrow> GameState \<Rightarrow> Keys \<Rightarrow> real \<Rightarrow> Player \<Rightarrow> Frame" where
  "useFrame wl planet gameState keys delta p =
     (if gameState \<noteq> PLAYING \<and> gameState \<noteq> MENU then
        \<lparr> player = p, game = gameState, jumpTriggered = False, landTriggered = None \<rparr>
      else
        (let dt = min delta 0.05
         in if gameState = MENU then
              \<lparr> player = p, game = gameState, jumpTriggered = False, landTriggered = None \<rparr>
            else if posZ p > (wl / 2) - 300 \<and> gameState = PLAYING then
              \<lparr> player = p, game = FINISHED, jumpTriggered = False, landTriggered = None \<rparr>
            else physics wl planet keys dt p))"

text \<open>A run of frames: each frame's keys and elapsed time, from a game state and refs.\<close>

fun frames ::
  "real \<Rightarrow> PlanetConfig \<Rightarrow> (Keys \<times> real) list \<Rightarrow> GameState \<times> Player \<Rightarrow> GameState \<times> Player" where
  "frames wl planet [] gp = gp"
| "frames wl planet ((keys, delta) # rest) (g, p) =
     (let f = useFrame wl planet g keys delta p
      in frames wl planet rest (game f, player f))"

text \<open>
  \<open>clampedSpeed\<close> is the value of \<open>speed.current\<close> right after the clamp statement
  \<open>Math.min(Math.max(speed.current, -20), maxSpeed)\<close> of a frame, as a function of the
  keys, the time step and the refs at the start of the frame.
\<close>

definition clampedSpeed :: "Keys \<Rightarrow> real \<Rightarrow> Player \<Rightarrow> real" where
  "clampedSpeed keys dt p =
     min (max (((if key_w keys then speed p + 60 * dt else speed p)
                - (if key_s keys then 200 * dt else 0)) * 0.99) (- 20)) 190"

section \<open>The value-noise formula in the words of the specification\<close>

text \<open>
  The specification describes value noise as a bilinear interpolation of four hash
  corners, weighted by the cubic Hermite smoothstep \<open>3t\<^sup>2 - 2t\<^sup>3\<close>. These two
  definitions follow that wording; \<open>noise\<close> above follows the source.
\<close>

definition spec_smoothstep :: "real \<Rightarrow> real" where
  "spec_smoothstep t = 3 * t\<^sup>2 - 2 * t ^ 3"

definition spec_bilinear :: "real \<Rightarrow> real \<Rightarrow> real \<Rightarrow> real \<Rightarrow> real \<Rightarrow> real \<Rightarrow> real" where
  "spec_bilinear a b c d u v = lerp (lerp a b u) (lerp c d u) v"

section \<open>Concrete configurations\<close>

text \<open>
  The planet table \<open>PLANETS\<close> lives in constants.ts with \<open>WORLD_LENGTH\<close>. The
  configurations below are well-typed \<open>PlanetConfig\<close> values used as concrete inputs,
  with a world length of 20000.
\<close>

definition ridgePlanet :: PlanetConfig where
  "ridgePlanet =
     \<lparr> name = MOON, gravity = 0.16, atmosphereDensity = 0,
       groundColor = ''#888888'', skyColor = ''#000000'', fogColor = ''#111111'',
       mountainHeight = 3000, terrainRoughness = 0, accentColor = ''#ffffff'',
       stars = True, description = ''ridge test planet'', hasWater = None,
       scatterType = Some rock, terrainProfile = ridge, weather = none, locked = None \<rparr>"

definition pipePlanet :: PlanetConfig where
  "pipePlanet =
     \<lparr> name = SPACECRAFT, gravity = 1, atmosphereDensity = 1,
       groundColor = ''#222222'', skyColor = ''#000011'', fogColor = ''#000022'',
       mountainHeight = 0, terrainRoughness = 0.5, accentColor = ''#00ffff'',
       stars = True, description = ''pipe test planet'', hasWater = None,
       scatterType = Some tech, terrainProfile = pipe, weather = debris, locked = Some False \<rparr>"

definition smoothPlanet :: PlanetConfig where
  "smoothPlanet =
     \<lparr> name = NEPTUNE, gravity = 1, atmosphereDensity = 1,
       groundColor = ''#224488'', skyColor = ''#001133'', fogColor = ''#002244'',
       mountainHeight = 6000, terrainRoughness = 0, accentColor = ''#88ccff'',
       stars = False, description = ''smooth shield test planet'', hasWater = Some False,
       scatterType = Some ice, terrainProfile = shield, weather = diamond_rain, locked = None \<rparr>"

definition noKeys :: Keys where
  "noKeys = \<lparr> key_w = False, key_a = False, key_s = False, key_d = False, key_space = False \<rparr>"

definition keysW :: Keys where
  "keysW = \<lparr> key_w = True, key_a = False, key_s = False, key_d = False, key_space = False \<rparr>"

definition keysSpace :: Keys where
  "keysSpace = \<lparr> key_w = False, key_a = False, key_s = False, key_d = False, key_space = True \<rparr>"

text \<open>A player at rest at the origin of the track, at elevation \<open>y\<close>.\<close>

definition playerAt :: "real \<Rightarrow> Player" where
  "playerAt y =
     \<lparr> posX = 0, posY = y, posZ = 0, velX = 0, velY = 0, velZ = 0, speed = 0, inputX = 0,
       frameCount = 0, wasGrounded = True \<rparr>"

text \<open>
  A player resting on the smooth planet at the origin, at the clamp height 0.5 above the
  terrain, moving at the top speed 190.
\<close>

definition cruisingPlayer :: Player where
  "cruisingPlayer = (playerAt (getTerrainHeight 20000 0 0 smoothPlanet + 0.5)) \<lparr> speed := 190 \<rparr>"

text \<open>A player at rest at the origin of the smooth planet, 1 below the terrain surface.\<close>

definition sunkenPlayer :: Player where
  "sunkenPlayer = playerAt (getTerrainHeight 20000 0 0 smoothPlanet - 1)"

text \<open>
  The invariant of a run on the smooth planet with only the forward key held, at 0.05 s
  per frame, after \<open>k\<close> frames from the spawn state: where the player can be, that it
  rests at least 0.5 above the terrain, and a lower bound of its speed.
\<close>

definition cruiseInv :: "nat \<Rightarrow> Player \<Rightarrow> bool" where
  "cruiseInv k p \<longleftrightarrow>
     - 9800 \<le> posZ p \<and> posZ p \<le> - 9800 + 10.25 * real k \<and>
     \<bar>posX p\<bar> \<le> 1.35 * real k \<and>
     \<bar>velX p\<bar> \<le> 27 \<and>
     inputX p = 0 \<and>
     getTerrainHeight 20000 (posX p) (posZ p) smoothPlanet + 0.5 \<le> posY p \<and>
     0 \<le> speed p \<and>
     min (297 * (1 - 0.99 ^ k)) 190 \<le> speed p"

section \<open>Auxiliary facts\<close>

subsection \<open>Bounds on the noise kernel\<close>

lemma fract_bounds: "0 \<le> fract x \<and> fract x < 1"
  unfolding fract_def by linarith

lemma hash_bounds: "0 \<le> hash x z \<and> hash x z < 1"
  unfolding hash_def by (rule fract_bounds)

lemma smooth_bounds:
  assumes "0 \<le> f" "f < 1"
  shows "0 \<le> f * f * (3.0 - 2.0 * f) \<and> f * f * (3.0 - 2.0 * f) < (1::real)"
proof
  have "0 \<le> f * f" by simp
  moreover have "0 \<le> 3.0 - 2.0 * f" using assms by simp
  ultimately show "0 \<le> f * f * (3.0 - 2.0 * f)" by (rule mult_nonneg_nonneg)
next
  have "1 - f * f * (3.0 - 2.0 * f) = (1 - f) * (1 - f) * (1 + 2 * f)"
    by (simp add: algebra_simps)
  moreover have "0 < (1 - f) * (1 - f) * (1 + 2 * f)"
    using assms by (intro mult_pos_pos) auto
  ultimately show "f * f * (3.0 - 2.0 * f) < 1" by linarith
qed

lemma mix_bounds:
  fixes a b u :: real
  assumes "0 \<le> a" "a < 1" "0 \<le> b" "b < 1" "0 \<le> u" "u \<le> 1"
  shows "0 \<le> a * (1 - u) + b * u \<and> a * (1 - u) + b * u < 1"
proof
  show "0 \<le> a * (1 - u) + b * u" using assms by (intro add_nonneg_nonneg mult_nonneg_nonneg) auto
next
  have "a * (1 - u) \<le> max a b * (1 - u)" using assms by (intro mult_right_mono) auto
  moreover have "b * u \<le> max a b * u" using assms by (intro mult_right_mono) auto
  ultimately have "a * (1 - u) + b * u \<le> max a b * (1 - u) + max a b * u" by linarith
  also have "\<dots> = max a b" by (simp add: algebra_simps)
  also have "\<dots> < 1" using assms by simp
  finally show "a * (1 - u) + b * u < 1" .
qed

lemma noise_bounds: "0 \<le> noise x z \<and> noise x z < 1"
proof -
  define uX where "uX = fract x * fract x * (3.0 - 2.0 * fract x)"
  define uZ where "uZ = fract z * fract z * (3.0 - 2.0 * fract z)"
  have uX: "0 \<le> uX" "uX \<le> 1" using smooth_bounds[of "fract x"] fract_bounds[of x] by (auto simp: uX_def)
  have uZ: "0 \<le> uZ" "uZ \<le> 1" using smooth_bounds[of "fract z"] fract_bounds[of z] by (auto simp: uZ_def)
  define a where "a = hash (of_int \<lfloor>x\<rfloor>) (of_int \<lfloor>z\<rfloor>)"
  define b where "b = hash (of_int \<lfloor>x\<rfloor> + 1.0) (of_int \<lfloor>z\<rfloor>)"
  define c where "c = hash (of_int \<lfloor>x\<rfloor>) (of_int \<lfloor>z\<rfloor> + 1.0)"
  define d where "d = hash (of_int \<lfloor>x\<rfloor> + 1.0) (of_int \<lfloor>z\<rfloor> + 1.0)"
  have h: "0 \<le> a" "a < 1" "0 \<le> b" "b < 1" "0 \<le> c" "c < 1" "0 \<le> d" "d < 1"
    using hash_bounds by (auto simp: a_def b_def c_def d_def)
  have ab: "0 \<le> a * (1 - uX) + b * uX" "a * (1 - uX) + b * uX < 1"
    using mix_bounds[OF h(1-4) uX] by auto
  have cd: "0 \<le> c * (1 - uX) + d * uX" "c * (1 - uX) + d * uX < 1"
    using mix_bounds[OF h(5-8) uX] by auto
  have "noise x z = (a * (1 - uX) + b * uX) * (1 - uZ) + (c * (1 - uX) + d * uX) * uZ"
    by (simp add: noise_def Let_def a_def b_def c_def d_def uX_def uZ_def)
  then show ?thesis using mix_bounds[OF ab cd uZ] by simp
qed

lemma fbm4_bounds: "0 \<le> fbm x z 4 0.5 2.0 \<and> fbm x z 4 0.5 2.0 < 1.875"
proof -
  have e: "fbm x z 4 0.5 2.0 =
      noise (x * 1) (z * 1) * 1 + noise (x * (1 * 2.0)) (z * (1 * 2.0)) * (1 * 0.5)
      + noise (x * (1 * 2.0 * 2.0)) (z * (1 * 2.0 * 2.0)) * (1 * 0.5 * 0.5)
      + noise (x * (1 * 2.0 * 2.0 * 2.0)) (z * (1 * 2.0 * 2.0 * 2.0)) * (1 * 0.5 * 0.5 * 0.5)"
    by (simp add: fbm_def eval_nat_numeral)
  show ?thesis
    unfolding e
    using noise_bounds[of "x * 1" "z * 1"]
      noise_bounds[of "x * (1 * 2.0)" "z * (1 * 2.0)"]
      noise_bounds[of "x * (1 * 2.0 * 2.0)" "z * (1 * 2.0 * 2.0)"]
      noise_bounds[of "x * (1 * 2.0 * 2.0 * 2.0)" "z * (1 * 2.0 * 2.0 * 2.0)"]
    by simp
qed

lemma fbm3_bounds: "0 \<le> fbm x z 3 0.5 2.0 \<and> fbm x z 3 0.5 2.0 < 1.75"
proof -
  have e: "fbm x z 3 0.5 2.0 =
      noise (x * 1) (z * 1) * 1 + noise (x * (1 * 2.0)) (z * (1 * 2.0)) * (1 * 0.5)
      + noise (x * (1 * 2.0 * 2.0)) (z * (1 * 2.0 * 2.0)) * (1 * 0.5 * 0.5)"
    by (simp add: fbm_def eval_nat_numeral)
  show ?thesis
    unfolding e
    using noise_bounds[of "x * 1" "z * 1"]
      noise_bounds[of "x * (1 * 2.0)" "z * (1 * 2.0)"]
      noise_bounds[of "x * (1 * 2.0 * 2.0)" "z * (1 * 2.0 * 2.0)"]
    by simp
qed

lemma microNoise_bounds: "0 \<le> microNoise x z p \<and> microNoise x z p < 1"
proof -
  have n: "0 \<le> noise (x * 0.8) (z * 0.8)" "noise (x * 0.8) (z * 0.8) < 1"
    using noise_bounds by auto
  have "(noise (x * 0.8) (z * 0.8))\<^sup>2 < 1\<^sup>2"
    using n by (intro power_strict_mono) auto
  then show ?thesis using n by (simp add: microNoise_def Let_def)
qed

subsection \<open>The terms of the height field\<close>

lemma profileHeight_ridge: "terrainProfile p = ridge \<Longrightarrow> profileHeight x p \<ge> -3000"
  by (simp add: profileHeight_def Let_def)

lemma profileHeight_pipe: "terrainProfile p = pipe \<Longrightarrow> profileHeight x p \<ge> -2000"
  by (simp add: profileHeight_def Let_def)

lemma getTerrainHeight_generic:
  "name p \<noteq> MARS \<Longrightarrow>
   getTerrainHeight wl x z p =
     slopeHeight wl z p + profileHeight x p + finalNoise x z p + microNoise x z p - 200"
  by (simp add: getTerrainHeight_def Let_def)

lemma finalNoise_cases:
  "finalNoise x z p =
     (if \<bar>x\<bar> < 150
      then (fbm (x * 0.0005) (z * 0.0005) 4 0.5 2.0 - 0.5)
             * (if terrainProfile p = pipe then 50 else 500 * terrainRoughness p) * 0.15
      else (fbm (x * 0.0005) (z * 0.0005) 4 0.5 2.0 - 0.5)
             * (if terrainProfile p = pipe then 50 else 500 * terrainRoughness p)
           + noise (x * 0.001) (z * 0.001) * 600 * (min ((\<bar>x\<bar> - 150) / 1000) 1)\<^sup>2
               * terrainRoughness p
           + noise (x * 0.01) (z * 0.01) * 100 * (min ((\<bar>x\<bar> - 150) / 1000) 1)\<^sup>2)"
  by (simp add: finalNoise_def Let_def)

lemma cliffIntensity_bounds:
  "0 \<le> (min ((\<bar>x\<bar> - 150) / 1000) (1::real))\<^sup>2 \<and>
   (\<bar>x\<bar> \<ge> 150 \<longrightarrow> (min ((\<bar>x\<bar> - 150) / 1000) (1::real))\<^sup>2 \<le> 1)"
proof -
  have "\<bar>x\<bar> \<ge> 150 \<Longrightarrow> (min ((\<bar>x\<bar> - 150) / 1000) (1::real))\<^sup>2 \<le> 1\<^sup>2"
    by (intro power_mono) auto
  then show ?thesis by auto
qed

lemma finalNoise_smooth_center:
  "terrainProfile p \<noteq> pipe \<Longrightarrow> terrainRoughness p = 0 \<Longrightarrow> \<bar>x\<bar> < 150 \<Longrightarrow>
   finalNoise x z p = 0"
  by (simp add: finalNoise_cases)

lemma finalNoise_smooth:
  assumes "terrainProfile p \<noteq> pipe" "terrainRoughness p = 0"
  shows "0 \<le> finalNoise x z p \<and> finalNoise x z p < 100"
proof (cases "\<bar>x\<bar> < 150")
  case True
  then show ?thesis using assms by (simp add: finalNoise_cases)
next
  case False
  define ci where "ci = (min ((\<bar>x\<bar> - 150) / 1000) (1::real))\<^sup>2"
  have ci: "0 \<le> ci" "ci \<le> 1" using cliffIntensity_bounds[of x] False by (auto simp: ci_def)
  define d where "d = noise (x * 0.01) (z * 0.01)"
  have d: "0 \<le> d" "d < 1" using noise_bounds by (auto simp: d_def)
  have e: "finalNoise x z p = d * 100 * ci"
    using False assms by (simp add: finalNoise_cases ci_def d_def)
  have "0 \<le> d * 100 * ci" using d ci by simp
  moreover have "d * ci \<le> d * 1" using d ci by (intro mult_left_mono) auto
  ultimately show ?thesis using d unfolding e by simp
qed

lemma finalNoise_pipe_lower:
  assumes "terrainProfile p = pipe" "0 \<le> terrainRoughness p"
  shows "- 25 \<le> finalNoise x z p"
proof -
  define f where "f = fbm (x * 0.0005) (z * 0.0005) 4 0.5 2.0"
  have f: "0 \<le> f" using fbm4_bounds by (simp add: f_def)
  show ?thesis
  proof (cases "\<bar>x\<bar> < 150")
    case True
    then have "finalNoise x z p = (f - 0.5) * 50 * 0.15"
      using assms by (simp add: finalNoise_cases f_def)
    then show ?thesis using f by simp
  next
    case False
    define ci where "ci = (min ((\<bar>x\<bar> - 150) / 1000) (1::real))\<^sup>2"
    have ci: "0 \<le> ci" using cliffIntensity_bounds[of x] by (auto simp: ci_def)
    define c where "c = noise (x * 0.001) (z * 0.001)"
    define d where "d = noise (x * 0.01) (z * 0.01)"
    have cd: "0 \<le> c" "0 \<le> d" using noise_bounds by (auto simp: c_def d_def)
    have e: "finalNoise x z p = (f - 0.5) * 50 + c * 600 * ci * terrainRoughness p + d * 100 * ci"
      using False assms by (simp add: finalNoise_cases ci_def c_def d_def f_def)
    have "0 \<le> c * 600 * ci * terrainRoughness p" using cd ci assms by simp
    moreover have "0 \<le> d * 100 * ci" using cd ci by simp
    ultimately show ?thesis using f unfolding e by simp
  qed
qed

lemma finalNoise_rough_lower:
  assumes "terrainProfile p \<noteq> pipe" "0 \<le> terrainRoughness p"
  shows "- 250 * terrainRoughness p \<le> finalNoise x z p"
proof -
  define f where "f = fbm (x * 0.0005) (z * 0.0005) 4 0.5 2.0"
  define r where "r = terrainRoughness p"
  define q where "q = (f - 0.5) * r"
  have f: "0 \<le> f" using fbm4_bounds by (simp add: f_def)
  have r: "0 \<le> r" using assms by (simp add: r_def)
  have "- 0.5 * r \<le> (f - 0.5) * r" using f r by (intro mult_right_mono) auto
  then have fr: "- 0.5 * r \<le> q" by (simp add: q_def)
  show ?thesis
  proof (cases "\<bar>x\<bar> < 150")
    case True
    then have "finalNoise x z p = q * 75"
      using assms by (simp add: finalNoise_cases f_def r_def q_def)
    then show ?thesis using fr r unfolding r_def[symmetric] by linarith
  next
    case False
    define ci where "ci = (min ((\<bar>x\<bar> - 150) / 1000) (1::real))\<^sup>2"
    have ci: "0 \<le> ci" using cliffIntensity_bounds[of x] by (auto simp: ci_def)
    define c where "c = noise (x * 0.001) (z * 0.001)"
    define d where "d = noise (x * 0.01) (z * 0.01)"
    have cd: "0 \<le> c" "0 \<le> d" using noise_bounds by (auto simp: c_def d_def)
    have e: "finalNoise x z p = q * 500 + c * 600 * ci * r + d * 100 * ci"
      using False assms by (simp add: finalNoise_cases ci_def c_def d_def f_def r_def q_def)
    have "0 \<le> c * 600 * ci * r" using cd ci r by simp
    moreover have "0 \<le> d * 100 * ci" using cd ci by simp
    ultimately show ?thesis using fr unfolding e r_def[symmetric] by linarith
  qed
qed

subsection \<open>The normal estimator\<close>

lemma normLen_terrainNorm: "4 \<le> normLen (terrainNorm wl x z p)"
proof -
  define n where "n = terrainNorm wl x z p"
  have y: "vy n = 4" by (simp add: n_def terrainNorm_def Let_def)
  have "sqrt (4 * 4) \<le> sqrt (vx n * vx n + vy n * vy n + vz n * vz n)"
    unfolding y by (rule real_sqrt_le_mono) simp
  then show ?thesis by (simp add: normLen_def n_def)
qed

lemma normal_component_le:
  fixes a b c :: real
  shows "\<bar>a\<bar> \<le> sqrt (a * a + b * b + c * c)" "\<bar>c\<bar> \<le> sqrt (a * a + b * b + c * c)"
proof -
  have "sqrt (a * a) \<le> sqrt (a * a + b * b + c * c)" by (rule real_sqrt_le_mono) simp
  then show "\<bar>a\<bar> \<le> sqrt (a * a + b * b + c * c)" by simp
  have "sqrt (c * c) \<le> sqrt (a * a + b * b + c * c)" by (rule real_sqrt_le_mono) simp
  then show "\<bar>c\<bar> \<le> sqrt (a * a + b * b + c * c)" by simp
qed

lemma getTerrainNormal_bounds:
  "\<bar>vx (getTerrainNormal wl x z p)\<bar> \<le> 1 \<and> \<bar>vz (getTerrainNormal wl x z p)\<bar> \<le> 1"
proof -
  define n where "n = terrainNorm wl x z p"
  have l: "0 < normLen n" using normLen_terrainNorm[of wl x z p] by (simp add: n_def)
  have "\<bar>vx n\<bar> \<le> normLen n" "\<bar>vz n\<bar> \<le> normLen n"
    unfolding normLen_def by (rule normal_component_le)+
  then have "\<bar>vx n\<bar> / normLen n \<le> 1" "\<bar>vz n\<bar> / normLen n \<le> 1" using l by simp_all
  then show ?thesis using l by (simp add: getTerrainNormal_def Let_def n_def)
qed

lemma getTerrainNormal_vz_sign:
  "0 < vz (getTerrainNormal wl x z p) \<longleftrightarrow>
   getTerrainHeight wl x (z + 2) p < getTerrainHeight wl x (z - 2) p"
proof -
  have l: "0 < normLen (terrainNorm wl x z p)" using normLen_terrainNorm[of wl x z p] by simp
  show ?thesis
    using l by (simp add: getTerrainNormal_def Let_def zero_less_divide_iff)
      (simp add: terrainNorm_def Let_def)
qed

subsection \<open>Bounds on the height of a pipe or ridge planet\<close>

lemma finalNoise_pipe_upper:
  assumes "terrainProfile p = pipe" "0 \<le> terrainRoughness p"
  shows "finalNoise x z p < 168.75 + 600 * terrainRoughness p"
proof -
  define f where "f = fbm (x * 0.0005) (z * 0.0005) 4 0.5 2.0"
  define r where "r = terrainRoughness p"
  have f: "0 \<le> f" "f < 1.875" using fbm4_bounds[of "x * 0.0005" "z * 0.0005"] by (simp_all add: f_def)
  have r: "0 \<le> r" using assms by (simp add: r_def)
  show ?thesis
  proof (cases "\<bar>x\<bar> < 150")
    case True
    then have "finalNoise x z p = (f - 0.5) * 50 * 0.15"
      using assms by (simp add: finalNoise_cases f_def)
    then show ?thesis using f r unfolding r_def[symmetric] by simp
  next
    case False
    define ci where "ci = (min ((\<bar>x\<bar> - 150) / 1000) (1::real))\<^sup>2"
    have ci: "0 \<le> ci" "ci \<le> 1" using cliffIntensity_bounds[of x] False by (auto simp: ci_def)
    define c where "c = noise (x * 0.001) (z * 0.001)"
    define d where "d = noise (x * 0.01) (z * 0.01)"
    have cd: "0 \<le> c" "0 \<le> d" "c < 1" "d < 1" using noise_bounds by (auto simp: c_def d_def)
    define t1 where "t1 = c * ci * r"
    define t2 where "t2 = d * ci"
    have "c * ci \<le> 1 * 1" using cd ci by (intro mult_mono) auto
    then have "c * ci * r \<le> 1 * r" using r by (intro mult_right_mono) auto
    then have t1: "t1 \<le> r" by (simp add: t1_def)
    have "d * ci \<le> 1 * 1" using cd ci by (intro mult_mono) auto
    then have t2: "t2 \<le> 1" by (simp add: t2_def)
    have e: "finalNoise x z p = (f - 0.5) * 50 + 600 * t1 + 100 * t2"
      using False assms by (simp add: finalNoise_cases ci_def c_def d_def f_def r_def t1_def t2_def)
    show ?thesis using f t1 t2 unfolding e r_def[symmetric] by simp
  qed
qed

lemma pipe_height_bounds:
  assumes "name p \<noteq> MARS" "terrainProfile p = pipe" "0 \<le> terrainRoughness p"
  shows "slopeHeight wl z p - 2225 \<le> getTerrainHeight wl x z p \<and>
         getTerrainHeight wl x z p < slopeHeight wl z p + 600 * terrainRoughness p - 30.25"
proof -
  have "profileHeight x p \<le> 0" using assms by (simp add: profileHeight_def Let_def)
  then show ?thesis
    using profileHeight_pipe[OF assms(2), of x] finalNoise_pipe_lower[OF assms(2,3), of x z]
      finalNoise_pipe_upper[OF assms(2,3), of x z] microNoise_bounds[of x z p]
    by (simp add: getTerrainHeight_generic[OF assms(1)])
qed

lemma ridge_height_lower:
  assumes "name p \<noteq> MARS" "terrainProfile p = ridge" "0 \<le> terrainRoughness p"
  shows "slopeHeight wl z p - 3200 - 250 * terrainRoughness p \<le> getTerrainHeight wl x z p"
proof -
  have "terrainProfile p \<noteq> pipe" using assms by simp
  then show ?thesis
    using profileHeight_ridge[OF assms(2), of x] finalNoise_rough_lower[OF _ assms(3), of x z]
      microNoise_bounds[of x z p]
    by (simp add: getTerrainHeight_generic[OF assms(1)])
qed

subsection \<open>The frame, field by field\<close>

lemma useFrame_playing:
  "\<not> posZ p > wl / 2 - 300 \<Longrightarrow>
   useFrame wl planet PLAYING keys delta p = physics wl planet keys (min delta 0.05) p"
  by (simp add: useFrame_def Let_def)

lemma physics_player:
  "player (physics wl planet keys dt p) = collide wl planet p (integrate wl planet keys dt p)"
  by (simp add: physics_def Let_def)

lemma collide_fields:
  "posX (collide wl planet p c) = (if wallHit wl planet p c then posX p else nextX c)"
  "posZ (collide wl planet p c) = nextZ c"
  "posY (collide wl planet p c) =
     (if nextY c < getTerrainHeight wl (nextX c) (nextZ c) planet + 0.5
      then getTerrainHeight wl (nextX c) (nextZ c) planet + 0.5 else nextY c)"
  "velX (collide wl planet p c) = (if wallHit wl planet p c then c_velX c * (- 0.5) else c_velX c)"
  "velY (collide wl planet p c) =
     (if nextY c < getTerrainHeight wl (nextX c) (nextZ c) planet + 0.5 then 0 else c_velY c)"
  "speed (collide wl planet p c) = (if wallHit wl planet p c then c_speed c * 0.3 else c_speed c)"
  "wasGrounded (collide wl planet p c) = isGrounded c"
  "inputX (collide wl planet p c) = c_inputX c"
  by (simp_all add: collide_def Let_def)

lemma integrate_grounded:
  "isGrounded (integrate wl planet keys dt p)
     \<longleftrightarrow> posY p - getTerrainHeight wl (posX p) (posZ p) planet < 2"
  "currentHeight (integrate wl planet keys dt p)
     = posY p - getTerrainHeight wl (posX p) (posZ p) planet"
  by (simp_all only: integrate_def Let_def Candidate.select_convs)
     (simp add: HOVER_TARGET_def)

lemma integrate_jump:
  "jump (integrate wl planet keys dt p)
     \<longleftrightarrow> key_space keys \<and> isGrounded (integrate wl planet keys dt p)
         \<and> currentHeight (integrate wl planet keys dt p) < HOVER_TARGET + 0.5"
  by (simp only: integrate_def Let_def Candidate.select_convs)

lemma integrate_next:
  "nextX (integrate wl planet keys dt p) = posX p + c_velX (integrate wl planet keys dt p) * dt"
  "nextY (integrate wl planet keys dt p) = posY p + c_velY (integrate wl planet keys dt p) * dt"
  "nextZ (integrate wl planet keys dt p)
     = posZ p + (c_speed (integrate wl planet keys dt p) + 10) * dt"
  by (simp_all only: integrate_def Let_def Candidate.select_convs)

lemma integrate_velY:
  "c_velY (integrate wl planet keys dt p)
     = (if jump (integrate wl planet keys dt p) then 50 else velY p)
       + forceY (integrate wl planet keys dt p) * dt / (MASS / 10)"
  by (simp only: integrate_def Let_def Candidate.select_convs)

lemma integrate_forceY:
  "forceY (integrate wl planet keys dt p) =
     (let h = currentHeight (integrate wl planet keys dt p)
      in if h < HOVER_TARGET + 3.0 then
           (let f = - gravity planet * 600
                    + max 0 ((HOVER_TARGET - h) * HOVER_STIFFNESS + - velY p * HOVER_DAMPING)
            in if \<not> key_space keys \<and> isGrounded (integrate wl planet keys dt p)
               then f - (800 + \<bar>speed p\<bar> * 10) else f)
         else - gravity planet * 600)"
  by (simp only: integrate_def Let_def Candidate.select_convs)

lemma integrate_inputX:
  "c_inputX (integrate wl planet keys dt p)
     = lerp (inputX p) ((if key_a keys then 1 else 0) + (if key_d keys then -1 else 0)) (dt * 6)"
  by (simp only: integrate_def Let_def Candidate.select_convs)

lemma integrate_speed:
  "c_speed (integrate wl planet keys dt p) =
     clampedSpeed keys dt p
     + (if vz (getTerrainNormal wl (posX p) (posZ p) planet) > 0
        then vz (getTerrainNormal wl (posX p) (posZ p) planet) * gravity planet * 100 * dt
        else 0)"
  by (simp only: integrate_def Let_def Candidate.select_convs clampedSpeed_def) simp

lemma clampedSpeed_range: "- 20 \<le> clampedSpeed keys dt p \<and> clampedSpeed keys dt p \<le> 190"
  by (simp add: clampedSpeed_def)

lemma integrate_speed_bounds:
  assumes "0 \<le> gravity planet" "0 \<le> dt"
  shows "clampedSpeed keys dt p \<le> c_speed (integrate wl planet keys dt p) \<and>
         c_speed (integrate wl planet keys dt p)
           \<le> clampedSpeed keys dt p + gravity planet * 100 * dt"
proof -
  define n where "n = vz (getTerrainNormal wl (posX p) (posZ p) planet)"
  define k where "k = gravity planet * 100 * dt"
  have k: "0 \<le> k" using assms by (simp add: k_def)
  have n: "n \<le> 1" using getTerrainNormal_bounds[of wl "posX p" "posZ p" planet]
    unfolding n_def by linarith
  have e: "c_speed (integrate wl planet keys dt p)
           = clampedSpeed keys dt p + (if n > 0 then n * k else 0)"
    by (simp add: integrate_speed n_def k_def)
  have "n > 0 \<Longrightarrow> 0 \<le> n * k" using k by simp
  moreover have "n * k \<le> 1 * k" using n k by (intro mult_right_mono) auto
  ultimately show ?thesis using k unfolding e k_def[symmetric] by auto
qed

lemma integrate_velX:
  "c_velX (integrate wl planet keys dt p) =
     (velX p + c_inputX (integrate wl planet keys dt p) * (50 + clampedSpeed keys dt p * 0.1) * dt) * 0.88
     + vx (getTerrainNormal wl (posX p) (posZ p) planet) * gravity planet * 200 * dt"
  by (simp only: integrate_def Let_def Candidate.select_convs clampedSpeed_def) simp

lemma physics_triggers:
  "jumpTriggered (physics wl planet keys dt p) = jump (integrate wl planet keys dt p)"
  "game (physics wl planet keys dt p) = PLAYING"
  by (simp_all add: physics_def Let_def)

subsection \<open>Frames on the concrete planets\<close>

lemma pipePlanet_facts:
  "name pipePlanet \<noteq> MARS" "terrainProfile pipePlanet = pipe" "0 \<le> terrainRoughness pipePlanet"
  "terrainRoughness pipePlanet = 0.5" "gravity pipePlanet = 1" "mountainHeight pipePlanet = 0"
  by (simp_all add: pipePlanet_def)

lemma pipePlanet_height: 
  "- 2225 \<le> getTerrainHeight wl x z pipePlanet \<and> getTerrainHeight wl x z pipePlanet < 269.75"
  using pipe_height_bounds[OF pipePlanet_facts(1-3), of wl z x]
  by (simp add: slopeHeight_def pipePlanet_facts)

lemma sunk_wallHit:
  "wallHit 20000 pipePlanet (playerAt (- 3000))
     (integrate 20000 pipePlanet keys (min 0.05 0.05) (playerAt (- 3000)))"
  using pipePlanet_height[of 20000
      "nextX (integrate 20000 pipePlanet keys (min 0.05 0.05) (playerAt (- 3000)))"
      "nextZ (integrate 20000 pipePlanet keys (min 0.05 0.05) (playerAt (- 3000)))"]
  by (simp add: wallHit_def playerAt_def)

lemma smoothPlanet_facts:
  "name smoothPlanet \<noteq> MARS" "terrainProfile smoothPlanet \<noteq> pipe"
  "terrainProfile smoothPlanet = shield"
  "terrainRoughness smoothPlanet = 0" "gravity smoothPlanet = 1"
  "mountainHeight smoothPlanet = 6000"
  by (simp_all add: smoothPlanet_def)

lemma smoothPlanet_height:
  assumes "\<bar>x\<bar> < 150"
  shows "getTerrainHeight 20000 x z smoothPlanet
         = 2800 - 0.3 * z - x\<^sup>2 / 4500 + microNoise x z smoothPlanet"
proof -
  have s: "slopeHeight 20000 z smoothPlanet = 3000 - 0.3 * z"
    by (simp add: slopeHeight_def zProgress_def smoothPlanet_facts algebra_simps)
  have p: "profileHeight x smoothPlanet = - x\<^sup>2 / 4500"
    by (simp add: profileHeight_def smoothPlanet_facts)
  have f: "finalNoise x z smoothPlanet = 0"
    using finalNoise_smooth_center[OF smoothPlanet_facts(2,4) assms] .
  show ?thesis
    by (simp add: getTerrainHeight_generic[OF smoothPlanet_facts(1)] s p f)
qed

lemma smoothPlanet_downhill:
  "0 < vz (getTerrainNormal 20000 0 0 smoothPlanet)"
proof -
  have "getTerrainHeight 20000 0 (0 + 2) smoothPlanet < getTerrainHeight 20000 0 (0 - 2) smoothPlanet"
    using microNoise_bounds[of 0 2 smoothPlanet] microNoise_bounds[of 0 "-2" smoothPlanet]
    by (simp add: smoothPlanet_height)
  then show ?thesis by (simp only: getTerrainNormal_vz_sign)
qed

text \<open>
  One frame shows the mechanism: the clamp to \<open>[-20, maxSpeed]\<close> is followed, in the
  same frame, by the slope boost \<open>speed += groundNormal.z * gravity * 100 * dt\<close>. A
  player at speed 190 on the downhill slope of the smooth planet, holding the forward
  key through a frame of 0.05 s, ends the frame with a speed above 190.
\<close>

lemma slope_boost_one_frame:
  "speed cruisingPlayer = 190 \<and>
   game (useFrame 20000 smoothPlanet PLAYING keysW 0.05 cruisingPlayer) = PLAYING \<and>
   190 < speed (player (useFrame 20000 smoothPlanet PLAYING keysW 0.05 cruisingPlayer))"
proof -
  define dt :: real where "dt = 0.05"
  define c where "c = integrate 20000 smoothPlanet keysW dt cruisingPlayer"
  define h0 where "h0 = getTerrainHeight 20000 0 0 smoothPlanet"
  have pf: "posX cruisingPlayer = 0" "posZ cruisingPlayer = 0" "posY cruisingPlayer = h0 + 0.5"
    "velX cruisingPlayer = 0" "inputX cruisingPlayer = 0" "speed cruisingPlayer = 190"
    by (simp_all add: cruisingPlayer_def playerAt_def h0_def)
  have z: "\<not> posZ cruisingPlayer > 20000 / 2 - 300" by (simp add: pf)
  have uf: "useFrame 20000 smoothPlanet PLAYING keysW 0.05 cruisingPlayer
            = physics 20000 smoothPlanet keysW dt cruisingPlayer"
    using useFrame_playing[OF z, of smoothPlanet keysW "0.05"] by (simp add: dt_def)
  have cs: "clampedSpeed keysW dt cruisingPlayer = 190"
    by (simp add: clampedSpeed_def keysW_def pf dt_def)
  define nz where "nz = vz (getTerrainNormal 20000 0 0 smoothPlanet)"
  define nx where "nx = vx (getTerrainNormal 20000 0 0 smoothPlanet)"
  have nz: "0 < nz" using smoothPlanet_downhill by (simp add: nz_def)
  have nx: "\<bar>nx\<bar> \<le> 1" using getTerrainNormal_bounds[of 20000 0 0 smoothPlanet] by (simp add: nx_def)
  have sp: "c_speed c = 190 + nz * 100 * dt"
    using nz by (simp add: c_def integrate_speed cs pf smoothPlanet_facts nz_def)
  have ix: "c_inputX c = 0"
    by (simp add: c_def integrate_inputX pf keysW_def lerp_def)
  have vx: "c_velX c = nx * 200 * dt"
    by (simp add: c_def integrate_velX ix[unfolded c_def] pf smoothPlanet_facts nx_def)
  have X: "nextX c = nx * 200 * dt * dt"
    using vx by (simp add: c_def integrate_next pf)
  have Z: "nextZ c = (c_speed c + 10) * dt"
    by (simp add: c_def integrate_next pf)
  have Xb: "\<bar>nextX c\<bar> < 150" using nx unfolding X dt_def by simp
  have Zb: "0 \<le> nextZ c" using nz unfolding Z sp dt_def by simp
  have h0: "h0 = 2800 + microNoise 0 0 smoothPlanet"
    by (simp add: h0_def smoothPlanet_height)
  have h1: "getTerrainHeight 20000 (nextX c) (nextZ c) smoothPlanet
         = 2800 - 0.3 * nextZ c - (nextX c)\<^sup>2 / 4500 + microNoise (nextX c) (nextZ c) smoothPlanet"
    using smoothPlanet_height[OF Xb] .
  have sq: "0 \<le> (nextX c)\<^sup>2 / 4500" by simp
  have "getTerrainHeight 20000 (nextX c) (nextZ c) smoothPlanet < 2801"
    using Zb sq microNoise_bounds[of "nextX c" "nextZ c" smoothPlanet] unfolding h1
    by linarith
  then have nw: "\<not> wallHit 20000 smoothPlanet cruisingPlayer c"
    using microNoise_bounds[of 0 0 smoothPlanet] by (simp add: wallHit_def pf h0)
  have "speed (player (useFrame 20000 smoothPlanet PLAYING keysW 0.05 cruisingPlayer)) = c_speed c"
    using nw unfolding uf by (simp add: physics_player collide_fields c_def)
  then show ?thesis using nz unfolding uf by (simp add: sp pf physics_triggers dt_def)
qed

lemma frame_speed_bounds:
  assumes "\<not> posZ p > wl / 2 - 300" "0 \<le> gravity planet" "0 \<le> delta"
  shows "- 20 \<le> speed (player (useFrame wl planet PLAYING keys delta p)) \<and>
         speed (player (useFrame wl planet PLAYING keys delta p))
           \<le> 190 + gravity planet * 100 * min delta 0.05"
proof -
  define dt where "dt = min delta 0.05"
  define c where "c = integrate wl planet keys dt p"
  have dt: "0 \<le> dt" using assms(3) by (simp add: dt_def)
  define k where "k = gravity planet * 100 * dt"
  have b: "- 20 \<le> c_speed c" "c_speed c \<le> 190 + k"
    using integrate_speed_bounds[OF assms(2) dt, of keys p wl] clampedSpeed_range[of keys dt p]
    by (simp_all add: c_def k_def)
  have k: "0 \<le> k" using assms(2) dt by (simp add: k_def)
  have e: "speed (player (useFrame wl planet PLAYING keys delta p))
           = (if wallHit wl planet p c then c_speed c * 0.3 else c_speed c)"
    by (simp add: useFrame_playing[OF assms(1)] physics_player collide_fields c_def dt_def)
  have "- 20 \<le> c_speed c * 0.3" "c_speed c * 0.3 \<le> 190 + k" using b k by simp_all
  then show ?thesis unfolding e dt_def[symmetric] k_def[symmetric] using b by auto
qed

lemma sunken_currentHeight:
  "currentHeight (integrate 20000 pipePlanet keys dt (playerAt (- 3000))) < 1.5"
  using pipePlanet_height[of 20000 0 0]
  by (simp add: integrate_grounded playerAt_def)

subsection \<open>A run from the spawn state\<close>

lemma frames_append:
  "frames wl planet (xs @ ys) gp = frames wl planet ys (frames wl planet xs gp)"
proof (induction xs arbitrary: gp)
  case Nil
  show ?case by simp
next
  case (Cons a xs)
  obtain keys delta where a: "a = (keys, delta)" by (cases a)
  obtain g p where gp: "gp = (g, p)" by (cases gp)
  show ?case by (simp add: a gp Let_def Cons.IH)
qed

lemma smooth_normal_z_pos:
  assumes "\<bar>x\<bar> < 150"
  shows "0 < vz (getTerrainNormal 20000 x z smoothPlanet)"
proof -
  have "getTerrainHeight 20000 x (z + 2) smoothPlanet < getTerrainHeight 20000 x (z - 2) smoothPlanet"
    using microNoise_bounds[of x "z + 2" smoothPlanet] microNoise_bounds[of x "z - 2" smoothPlanet]
    by (simp add: smoothPlanet_height[OF assms] field_simps)
  then show ?thesis by (simp only: getTerrainNormal_vz_sign)
qed

lemma smooth_normal_x_bound:
  assumes "\<bar>x\<bar> \<le> 147"
  shows "\<bar>vx (getTerrainNormal 20000 x z smoothPlanet)\<bar> \<le> 0.32"
proof -
  define n where "n = terrainNorm 20000 x z smoothPlanet"
  define mL where "mL = microNoise (x - 2) z smoothPlanet"
  define mR where "mR = microNoise (x + 2) z smoothPlanet"
  have mb: "0 \<le> mL" "mL < 1" "0 \<le> mR" "mR < 1"
    using microNoise_bounds by (simp_all add: mL_def mR_def)
  have xl: "\<bar>x - 2\<bar> < 150" using assms by linarith
  have xr: "\<bar>x + 2\<bar> < 150" using assms by linarith
  have "vx n = getTerrainHeight 20000 (x - 2) z smoothPlanet
                - getTerrainHeight 20000 (x + 2) z smoothPlanet"
    by (simp add: n_def terrainNorm_def Let_def)
  also have "\<dots> = (x + 2)\<^sup>2 / 4500 - (x - 2)\<^sup>2 / 4500 + (mL - mR)"
    by (simp add: smoothPlanet_height[OF xl] smoothPlanet_height[OF xr] mL_def mR_def)
  also have "\<dots> = 8 * x / 4500 + (mL - mR)"
    by (simp add: power2_eq_square field_simps)
  finally have e: "vx n = 8 * x / 4500 + (mL - mR)" .
  have a: "\<bar>vx n\<bar> \<le> 32 / 25" unfolding e using assms mb by linarith
  have l: "4 \<le> normLen n" using normLen_terrainNorm[of 20000 x z smoothPlanet] by (simp add: n_def)
  have "\<bar>vx n\<bar> / normLen n \<le> (32 / 25) / 4"
    using a l by (intro frac_le) auto
  moreover have "vx (getTerrainNormal 20000 x z smoothPlanet) = vx n / normLen n"
    by (simp add: getTerrainNormal_def Let_def n_def)
  ultimately show ?thesis using l by simp
qed

lemma cruise_frame:
  assumes inv: "cruiseInv k p" and k: "k \<le> 101"
  shows "game (useFrame 20000 smoothPlanet PLAYING keysW 0.05 p) = PLAYING \<and>
         cruiseInv (Suc k) (player (useFrame 20000 smoothPlanet PLAYING keysW 0.05 p)) \<and>
         clampedSpeed keysW 0.05 p < speed (player (useFrame 20000 smoothPlanet PLAYING keysW 0.05 p))"
proof -
  define dt :: real where "dt = 1 / 20"
  define c where "c = integrate 20000 smoothPlanet keysW dt p"
  define x where "x = posX p"
  define z where "z = posZ p"
  define nx where "nx = vx (getTerrainNormal 20000 x z smoothPlanet)"
  define nz where "nz = vz (getTerrainNormal 20000 x z smoothPlanet)"
  define cl where "cl = clampedSpeed keysW dt p"
  define q :: real where "q = (99 / 100) ^ k"
  define K where "K = real k"
  have rk: "K \<le> 101" "0 \<le> K" using k by (simp_all add: K_def)
  have K': "real (Suc k) = K + 1" by (simp add: K_def)
  have I: "- 9800 \<le> z" "z \<le> - 9800 + (41 / 4) * K" "\<bar>x\<bar> \<le> (27 / 20) * K"
    "\<bar>velX p\<bar> \<le> 27" "inputX p = 0"
    "getTerrainHeight 20000 x z smoothPlanet + 1 / 2 \<le> posY p" "0 \<le> speed p"
    "min (297 * (1 - q)) 190 \<le> speed p"
    using inv by (simp_all add: cruiseInv_def x_def z_def q_def K_def)
  have xb: "\<bar>x\<bar> \<le> 137" using I(3) rk by linarith
  have xc: "\<bar>x\<bar> < 150" "\<bar>x\<bar> \<le> 147" using xb by linarith+
  have "z \<le> 9700" using I(2) rk by linarith
  then have zf: "\<not> posZ p > 20000 / 2 - 300" by (simp add: z_def)
  have uf: "useFrame 20000 smoothPlanet PLAYING keysW 0.05 p
            = physics 20000 smoothPlanet keysW dt p"
    using useFrame_playing[OF zf, of smoothPlanet keysW "0.05"] by (simp add: dt_def)
  have cle: "clampedSpeed keysW 0.05 p = cl" by (simp add: cl_def dt_def)
  \<comment> \<open>the speed update\<close>
  have cl: "cl = min (max ((speed p + 3) * (99 / 100)) (- 20)) 190"
    by (simp add: cl_def clampedSpeed_def keysW_def dt_def)
  have cl0: "0 \<le> cl" "cl \<le> 190" using I(7) unfolding cl by simp_all
  have q': "(99 / 100 :: real) ^ Suc k = (99 / 100) * q" by (simp add: q_def)
  define A where "A = 297 * (1 - (99 / 100) * q)"
  define B where "B = (speed p + 3) * (99 / 100)"
  have "297 * (1 - q) \<le> speed p \<or> 190 \<le> speed p"
    using I(8) by (simp add: min_le_iff_disj)
  then have "A \<le> B \<or> 190 \<le> B"
    unfolding A_def B_def by (rule disj_forward) simp_all
  then have "min A 190 \<le> B" unfolding min_le_iff_disj .
  then have "min A 190 \<le> min (max B (- 20)) 190" by (simp add: le_max_iff_disj)
  then have clL: "min (297 * (1 - (99 / 100) * q)) 190 \<le> cl"
    unfolding cl A_def B_def .
  have nzp: "0 < nz" unfolding nz_def by (rule smooth_normal_z_pos[OF xc(1)])
  have nz1: "nz \<le> 1" using getTerrainNormal_bounds[of 20000 x z smoothPlanet]
    unfolding nz_def by linarith
  have "c_speed c = cl + nz * 100 * dt"
    using nzp
    by (simp add: c_def integrate_speed cl_def[symmetric] smoothPlanet_facts
        nz_def x_def z_def)
  then have sp: "c_speed c = cl + nz * 5" by (simp add: dt_def)
  have spb: "cl < c_speed c" "c_speed c \<le> 195" using nzp nz1 cl0 unfolding sp by simp_all
  \<comment> \<open>lateral motion\<close>
  have nxb: "\<bar>nx\<bar> \<le> 8 / 25"
    using smooth_normal_x_bound[OF xc(2), of z] by (simp add: nx_def)
  have ix: "c_inputX c = 0"
    by (simp add: c_def integrate_inputX I(5) keysW_def lerp_def)
  have "c_velX c = velX p * (22 / 25) + nx * 200 * dt"
    by (simp add: c_def integrate_velX ix[unfolded c_def] smoothPlanet_facts nx_def x_def z_def)
  then have vX: "c_velX c = velX p * (22 / 25) + nx * 10" by (simp add: dt_def)
  have vXb: "\<bar>c_velX c\<bar> \<le> 27" unfolding vX using I(4) nxb by linarith
  have "nextX c = x + c_velX c * dt" by (simp add: c_def integrate_next x_def)
  then have X: "nextX c = x + c_velX c / 20" by (simp add: dt_def)
  have "nextZ c = z + (c_speed c + 10) * dt" by (simp add: c_def integrate_next z_def)
  then have Z: "nextZ c = z + (c_speed c + 10) / 20" by (simp add: dt_def)
  have dX: "\<bar>nextX c - x\<bar> \<le> 27 / 20" unfolding X using vXb by linarith
  have Xb: "\<bar>nextX c\<bar> \<le> (27 / 20) * K + 27 / 20" using dX I(3) by linarith
  have Xc: "\<bar>nextX c\<bar> < 150" using dX xb by linarith
  have Zb: "z \<le> nextZ c" "nextZ c \<le> z + 41 / 4" unfolding Z using spb cl0 by simp_all
  \<comment> \<open>the terrain under the candidate position\<close>
  define h where "h = getTerrainHeight 20000 x z smoothPlanet"
  define h' where "h' = getTerrainHeight 20000 (nextX c) (nextZ c) smoothPlanet"
  define m where "m = microNoise x z smoothPlanet"
  define m' where "m' = microNoise (nextX c) (nextZ c) smoothPlanet"
  define D where "D = (x\<^sup>2 - (nextX c)\<^sup>2) / 4500"
  have mb: "0 \<le> m" "m < 1" "0 \<le> m'" "m' < 1"
    using microNoise_bounds by (simp_all add: m_def m'_def)
  have "x\<^sup>2 - (nextX c)\<^sup>2 = (x - nextX c) * (x + nextX c)"
    by (simp add: power2_eq_square algebra_simps)
  moreover have "\<bar>(x - nextX c) * (x + nextX c)\<bar> \<le> (27 / 20) * 300"
    unfolding abs_mult using dX Xc xc(1) by (intro mult_mono) linarith+
  ultimately have "x\<^sup>2 - (nextX c)\<^sup>2 \<le> 405" by linarith
  then have Db: "D \<le> 1 / 10" by (simp add: D_def)
  define dz where "dz = nextZ c - z"
  have dz: "0 \<le> dz" using Zb by (simp add: dz_def)
  have hh: "h' - h = m' - m - (3 / 10) * dz + D"
    by (simp add: h_def h'_def smoothPlanet_height[OF xc(1)] smoothPlanet_height[OF Xc]
        m_def m'_def D_def dz_def field_simps)
  have "h' - h < 11 / 10" unfolding hh using mb dz Db by linarith
  then have nw: "\<not> wallHit 20000 smoothPlanet p c"
    using I(6) by (simp add: wallHit_def h'_def[symmetric] h_def[symmetric])
  \<comment> \<open>the committed refs\<close>
  define p' where "p' = collide 20000 smoothPlanet p c"
  have pl: "player (physics 20000 smoothPlanet keysW dt p) = p'"
    by (simp add: physics_player p'_def c_def)
  have p'f: "posX p' = nextX c" "posZ p' = nextZ c" "velX p' = c_velX c" "speed p' = c_speed c"
    "inputX p' = 0" "h' + 1 / 2 \<le> posY p'"
    using nw ix by (simp_all add: p'_def collide_fields h'_def)
  have Zk: "- 9800 \<le> nextZ c" "nextZ c \<le> - 9800 + ((41 / 4) * K + 41 / 4)"
    using Zb I(1,2) by linarith+
  have S: "0 \<le> c_speed c" "min (297 * (1 - (99 / 100) * q)) 190 \<le> c_speed c"
    using spb cl0 clL by linarith+
  have "cruiseInv (Suc k) p'"
    unfolding cruiseInv_def p'f q' K'
    using Xb Zk vXb p'f(6) S
    by (simp add: h'_def distrib_left q_def)
  moreover have "game (physics 20000 smoothPlanet keysW dt p) = PLAYING"
    by (simp add: physics_triggers)
  ultimately show ?thesis
    unfolding uf pl cle using spb by (simp add: p'f)
qed

lemma cruise_run:
  assumes "cruiseInv k p" "k + n \<le> 102"
  shows "\<exists>p'. frames 20000 smoothPlanet (replicate n (keysW, 0.05)) (PLAYING, p) = (PLAYING, p')
              \<and> cruiseInv (k + n) p'"
  using assms
proof (induction n arbitrary: k p)
  case 0
  then show ?case by simp
next
  case (Suc n)
  have k: "k \<le> 101" using Suc.prems(2) by simp
  define f where "f = useFrame 20000 smoothPlanet PLAYING keysW 0.05 p"
  have f: "game f = PLAYING" "cruiseInv (Suc k) (player f)"
    using cruise_frame[OF Suc.prems(1) k] by (simp_all add: f_def)
  have "Suc k + n \<le> 102" using Suc.prems(2) by simp
  from Suc.IH[OF f(2) this] obtain p' where
    p': "frames 20000 smoothPlanet (replicate n (keysW, 0.05)) (PLAYING, player f) = (PLAYING, p')"
      "cruiseInv (Suc k + n) p'"
    by blast
  have "frames 20000 smoothPlanet (replicate (Suc n) (keysW, 0.05)) (PLAYING, p)
        = frames 20000 smoothPlanet (replicate n (keysW, 0.05)) (game f, player f)"
    by (simp add: f_def Let_def)
  then show ?case using p' f(1) by simp
qed

lemma spawn_cruiseInv: "cruiseInv 0 (spawn 20000 smoothPlanet)"
  by (simp add: cruiseInv_def spawn_def startZ_def initialSpawnHeight_def)

lemma speedFloor_101: "(189::real) \<le> min (297 * (1 - 0.99 ^ 101)) 190"
  by (simp add: power_divide)

section \<open>The properties\<close>

subsection \<open>Speed clamp\<close>

text \<open>
  Claim C2 (speed clamp) fails on the code. From the spawn state on the smooth planet,
  holding the forward key for 102 frames of 0.05 s keeps the game in state PLAYING and
  ends with a forward speed above \<open>maxSpeed = 190\<close>: the clamp of the last frame
  sets the speed to 190 and the slope boost that follows it in the same frame adds to it.
\<close>

theorem held_forward_key_exceeds_maxSpeed:
  "fst (frames 20000 smoothPlanet (replicate 102 (keysW, 0.05)) (PLAYING, spawn 20000 smoothPlanet))
     = PLAYING \<and>
   190 < speed (snd (frames 20000 smoothPlanet (replicate 102 (keysW, 0.05))
                       (PLAYING, spawn 20000 smoothPlanet)))"
proof -
  obtain p where p:
    "frames 20000 smoothPlanet (replicate 101 (keysW, 0.05)) (PLAYING, spawn 20000 smoothPlanet)
       = (PLAYING, p)"
    "cruiseInv 101 p"
    using cruise_run[OF spawn_cruiseInv, of 101] by auto
  define f where "f = useFrame 20000 smoothPlanet PLAYING keysW 0.05 p"
  have f: "game f = PLAYING" "clampedSpeed keysW 0.05 p < speed (player f)"
    using cruise_frame[OF p(2)] by (simp_all add: f_def)
  have "189 \<le> speed p" using p(2) speedFloor_101 unfolding cruiseInv_def by linarith
  then have cl: "clampedSpeed keysW 0.05 p = 190"
    by (simp add: clampedSpeed_def keysW_def)
  have r: "replicate 102 (keysW, 0.05 :: real) = replicate 101 (keysW, 0.05) @ [(keysW, 0.05)]"
    unfolding replicate_append_same by (simp add: eval_nat_numeral)
  have "frames 20000 smoothPlanet (replicate 102 (keysW, 0.05)) (PLAYING, spawn 20000 smoothPlanet)
        = (game f, player f)"
    unfolding r frames_append p(1) by (simp add: f_def Let_def)
  then show ?thesis using f cl by simp
qed

subsection \<open>Floor clamps of the ridge and pipe profiles\<close>

text \<open>
  Claim C3 (floor clamps), as amended. For a planet that does not take the Mars block,
  the floor clamp bounds the profile term: it is at least -3000 for the ridge profile and
  at least -2000 for the pipe profile, whatever \<open>x\<close> is. The height returned is that
  term plus the slope, noise and micro-detail terms minus the baseline 200, so it is
  bounded below by the floor constant plus those terms, not by the floor constant.
\<close>

theorem floor_clamps_profile_term_only:
  assumes "name p \<noteq> MARS"
  shows "(terrainProfile p = ridge \<longrightarrow>
            - 3000 \<le> profileHeight x p \<and>
            getTerrainHeight wl x z p
              \<ge> - 3000 + (slopeHeight wl z p + finalNoise x z p + microNoise x z p - 200)) \<and>
         (terrainProfile p = pipe \<longrightarrow>
            - 2000 \<le> profileHeight x p \<and>
            getTerrainHeight wl x z p
              \<ge> - 2000 + (slopeHeight wl z p + finalNoise x z p + microNoise x z p - 200))"
  using assms profileHeight_ridge[of p x] profileHeight_pipe[of p x]
  by (auto simp add: getTerrainHeight_generic)

theorem floor_clamps_profile_term_only_witness:
  "name ridgePlanet \<noteq> MARS \<and> terrainProfile ridgePlanet = ridge \<and>
   - 3000 \<le> profileHeight 40000 ridgePlanet \<and>
   getTerrainHeight 20000 40000 10000 ridgePlanet
     \<ge> - 3000 + (slopeHeight 20000 10000 ridgePlanet + finalNoise 40000 10000 ridgePlanet
                  + microNoise 40000 10000 ridgePlanet - 200) \<and>
   name pipePlanet \<noteq> MARS \<and> terrainProfile pipePlanet = pipe \<and>
   - 2000 \<le> profileHeight 40000 pipePlanet"
  using floor_clamps_profile_term_only [of ridgePlanet 40000 20000 10000]
    floor_clamps_profile_term_only [of pipePlanet 40000 20000 10000]
  by (simp add: ridgePlanet_def pipePlanet_def)

text \<open>
  Claim C3 as stated fails: with roughness 0, at the track end (where the slope term is
  zero) and far from the centreline, the height of a ridge planet is below -3000 and the
  height of a pipe planet is below -2000.
\<close>

theorem height_below_floor:
  "terrainProfile ridgePlanet = ridge \<and>
   getTerrainHeight 20000 40000 10000 ridgePlanet < - 3000 \<and>
   terrainProfile (pipePlanet \<lparr> terrainRoughness := 0 \<rparr>) = pipe \<and>
   getTerrainHeight 20000 40000 10000 (pipePlanet \<lparr> terrainRoughness := 0 \<rparr>) < - 2000"
proof -
  have m: "name ridgePlanet \<noteq> MARS" "terrainProfile ridgePlanet \<noteq> pipe"
    "terrainRoughness ridgePlanet = 0" "terrainProfile ridgePlanet = ridge"
    by (simp_all add: ridgePlanet_def)
  have "(4000::real) powr 1 \<le> 4000 powr 1.5" by (rule powr_mono) simp_all
  then have pw: "(4000::real) \<le> 4000 powr 1.5" by simp
  have pr: "profileHeight 40000 ridgePlanet = - 3000"
    using pw by (simp add: profileHeight_def m)
  have sl: "slopeHeight 20000 10000 ridgePlanet = 0"
    by (simp add: slopeHeight_def zProgress_def)
  have "getTerrainHeight 20000 40000 10000 ridgePlanet
        = 0 + (- 3000) + finalNoise 40000 10000 ridgePlanet
          + microNoise 40000 10000 ridgePlanet - 200"
    using getTerrainHeight_generic[OF m(1), of 20000 40000 10000] by (simp only: pr sl)
  then have r: "getTerrainHeight 20000 40000 10000 ridgePlanet < - 3000"
    using finalNoise_smooth[OF m(2,3), of 40000 10000]
      microNoise_bounds[of 40000 10000 ridgePlanet]
    by simp
  define P where "P = pipePlanet \<lparr> terrainRoughness := 0 \<rparr>"
  have n: "name P \<noteq> MARS" "terrainProfile P = pipe" "0 \<le> terrainRoughness P"
    "terrainRoughness P = 0"
    by (simp_all add: P_def pipePlanet_def)
  have pp: "profileHeight 40000 P = - 2000"
    by (simp add: profileHeight_def n)
  have sp: "slopeHeight 20000 10000 P = 0"
    by (simp add: slopeHeight_def zProgress_def)
  have "getTerrainHeight 20000 40000 10000 P
        = 0 + (- 2000) + finalNoise 40000 10000 P + microNoise 40000 10000 P - 200"
    using getTerrainHeight_generic[OF n(1), of 20000 40000 10000] by (simp only: pp sp)
  then have "getTerrainHeight 20000 40000 10000 P < - 2000"
    using finalNoise_pipe_upper[OF n(2,3), of 40000 10000] microNoise_bounds[of 40000 10000 P]
    by (simp add: n(4))
  then show ?thesis using r m(4) n(2) by (simp add: P_def)
qed

subsection \<open>Wall response\<close>

text \<open>
  Claim C4 (wall response), as amended. When the terrain at the candidate position is
  more than 5 above the starting \<open>y\<close>, the frame multiplies the forward speed by 0.3,
  multiplies the lateral velocity by -0.5, and rejects the lateral displacement:
  \<open>x\<close> is left at its value at the start of the frame. The coordinate along the track,
  \<open>z\<close>, still advances by \<open>(speed + 10) * dt\<close>, with the speed before the damping.
\<close>

theorem wall_rejects_lateral_step:
  assumes "\<not> posZ p > wl / 2 - 300"
    and "wallHit wl planet p (integrate wl planet keys (min delta 0.05) p)"
  shows "speed (player (useFrame wl planet PLAYING keys delta p))
           = c_speed (integrate wl planet keys (min delta 0.05) p) * 0.3 \<and>
         velX (player (useFrame wl planet PLAYING keys delta p))
           = c_velX (integrate wl planet keys (min delta 0.05) p) * (- 0.5) \<and>
         posX (player (useFrame wl planet PLAYING keys delta p)) = posX p \<and>
         posZ (player (useFrame wl planet PLAYING keys delta p))
           = posZ p + (c_speed (integrate wl planet keys (min delta 0.05) p) + 10) * min delta 0.05"
  using assms(2)
  by (simp add: useFrame_playing[OF assms(1)] physics_player collide_fields integrate_next)

theorem wall_rejects_lateral_step_witness:
  "\<not> posZ (playerAt (- 3000)) > 20000 / 2 - 300 \<and>
   wallHit 20000 pipePlanet (playerAt (- 3000))
     (integrate 20000 pipePlanet noKeys (min 0.05 0.05) (playerAt (- 3000))) \<and>
   speed (player (useFrame 20000 pipePlanet PLAYING noKeys 0.05 (playerAt (- 3000))))
     = c_speed (integrate 20000 pipePlanet noKeys (min 0.05 0.05) (playerAt (- 3000))) * 0.3 \<and>
   posX (player (useFrame 20000 pipePlanet PLAYING noKeys 0.05 (playerAt (- 3000)))) = 0"
proof -
  have z: "\<not> posZ (playerAt (- 3000)) > 20000 / 2 - 300" by (simp add: playerAt_def)
  show ?thesis
    using z sunk_wallHit[of noKeys] wall_rejects_lateral_step [OF z sunk_wallHit[of noKeys]]
    by (simp add: playerAt_def)
qed

text \<open>
  Claim C4 as stated fails: in a frame where the wall branch fires, the coordinate along
  the track changes.
\<close>

theorem wall_keeps_longitudinal_step:
  "wallHit 20000 pipePlanet (playerAt (- 3000))
     (integrate 20000 pipePlanet noKeys (min 0.05 0.05) (playerAt (- 3000))) \<and>
   posZ (player (useFrame 20000 pipePlanet PLAYING noKeys 0.05 (playerAt (- 3000))))
     \<noteq> posZ (playerAt (- 3000))"
proof -
  define c where "c = integrate 20000 pipePlanet noKeys 0.05 (playerAt (- 3000))"
  have z: "\<not> posZ (playerAt (- 3000)) > 20000 / 2 - 300" by (simp add: playerAt_def)
  have cs: "clampedSpeed noKeys 0.05 (playerAt (- 3000)) = 0"
    by (simp add: clampedSpeed_def noKeys_def playerAt_def)
  have "0 \<le> c_speed c"
    using integrate_speed_bounds[where planet = pipePlanet and dt = "0.05" and keys = noKeys
        and p = "playerAt (- 3000)" and wl = 20000] cs
    by (simp add: c_def pipePlanet_facts)
  moreover have "posZ (player (useFrame 20000 pipePlanet PLAYING noKeys 0.05 (playerAt (- 3000))))
      = (c_speed c + 10) * 0.05"
    by (simp add: useFrame_playing[OF z] physics_player collide_fields integrate_next c_def)
       (simp add: playerAt_def)
  ultimately have "posZ (player (useFrame 20000 pipePlanet PLAYING noKeys 0.05 (playerAt (- 3000)))) > 0"
    by simp
  then show ?thesis using sunk_wallHit[of noKeys] by (simp add: playerAt_def)
qed

subsection \<open>Jump\<close>

text \<open>
  Claim C5 (jump), as amended. In a frame of the physics block with the jump key active,
  the player grounded and the clearance below \<open>HOVER_TARGET + 0.5\<close>, the jump trigger
  fires and the vertical velocity is assigned 50 before the force integration of the same
  frame: the velocity that moves the player is \<open>50 + forceY * dt / 12\<close>, and the velocity
  stored at the end of the frame is that value, or 0 when the ground clamp fires. The
  conditions are those of the current frame only, so the assignment is repeated in every
  frame in which they hold.
\<close>

theorem jump_assigns_launch_velocity:
  assumes "\<not> posZ p > wl / 2 - 300"
    and "key_space keys"
    and "isGrounded (integrate wl planet keys (min delta 0.05) p)"
    and "currentHeight (integrate wl planet keys (min delta 0.05) p) < HOVER_TARGET + 0.5"
  shows "jumpTriggered (useFrame wl planet PLAYING keys delta p) \<and>
         c_velY (integrate wl planet keys (min delta 0.05) p)
           = 50 + forceY (integrate wl planet keys (min delta 0.05) p) * min delta 0.05 / 12 \<and>
         velY (player (useFrame wl planet PLAYING keys delta p))
           = (if nextY (integrate wl planet keys (min delta 0.05) p)
                 < getTerrainHeight wl (nextX (integrate wl planet keys (min delta 0.05) p))
                     (nextZ (integrate wl planet keys (min delta 0.05) p)) planet + 0.5
              then 0
              else 50 + forceY (integrate wl planet keys (min delta 0.05) p) * min delta 0.05 / 12)"
proof -
  define c where "c = integrate wl planet keys (min delta 0.05) p"
  have j: "jump c" using assms(2-4) by (simp add: c_def integrate_jump)
  have v: "c_velY c = 50 + forceY c * min delta 0.05 / 12"
    using j by (simp add: c_def integrate_velY MASS_def)
  show ?thesis
    using j v
    by (simp add: useFrame_playing[OF assms(1)] physics_player physics_triggers collide_fields
        c_def)
qed

theorem jump_assigns_launch_velocity_witness:
  "\<not> posZ (playerAt (- 3000)) > 20000 / 2 - 300 \<and> key_space keysSpace \<and>
   isGrounded (integrate 20000 pipePlanet keysSpace (min 0.05 0.05) (playerAt (- 3000))) \<and>
   currentHeight (integrate 20000 pipePlanet keysSpace (min 0.05 0.05) (playerAt (- 3000)))
     < HOVER_TARGET + 0.5 \<and>
   jumpTriggered (useFrame 20000 pipePlanet PLAYING keysSpace 0.05 (playerAt (- 3000))) \<and>
   c_velY (integrate 20000 pipePlanet keysSpace (min 0.05 0.05) (playerAt (- 3000)))
     = 50 + forceY (integrate 20000 pipePlanet keysSpace (min 0.05 0.05) (playerAt (- 3000)))
            * min 0.05 0.05 / 12"
proof -
  have z: "\<not> posZ (playerAt (- 3000)) > 20000 / 2 - 300" by (simp add: playerAt_def)
  have k: "key_space keysSpace" by (simp add: keysSpace_def)
  have h: "currentHeight (integrate 20000 pipePlanet keysSpace (min 0.05 0.05) (playerAt (- 3000)))
             < HOVER_TARGET + 0.5"
    using sunken_currentHeight[of keysSpace "min 0.05 0.05"] by (simp add: HOVER_TARGET_def)
  have g: "isGrounded (integrate 20000 pipePlanet keysSpace (min 0.05 0.05) (playerAt (- 3000)))"
    using sunken_currentHeight[of keysSpace "min 0.05 0.05"]
    by (simp add: integrate_grounded)
  show ?thesis
    using z k g h jump_assigns_launch_velocity [OF z k g h] by blast
qed

text \<open>
  Claim C5 as stated fails: with the jump key held through two consecutive frames of
  1/60 s, the jump fires in both frames, and the vertical velocity at the end of the first
  frame is not 50.
\<close>

theorem jump_fires_again_while_held:
  "key_space keysSpace \<and>
   jumpTriggered (useFrame 20000 smoothPlanet PLAYING keysSpace (1 / 60) sunkenPlayer) \<and>
   game (useFrame 20000 smoothPlanet PLAYING keysSpace (1 / 60) sunkenPlayer) = PLAYING \<and>
   velY (player (useFrame 20000 smoothPlanet PLAYING keysSpace (1 / 60) sunkenPlayer)) \<noteq> 50 \<and>
   jumpTriggered (useFrame 20000 smoothPlanet PLAYING keysSpace (1 / 60)
     (player (useFrame 20000 smoothPlanet PLAYING keysSpace (1 / 60) sunkenPlayer)))"
proof -
  define dt :: real where "dt = 1 / 60"
  define p0 where "p0 = sunkenPlayer"
  define c where "c = integrate 20000 smoothPlanet keysSpace dt p0"
  define h0 where "h0 = getTerrainHeight 20000 0 0 smoothPlanet"
  define p1 where "p1 = collide 20000 smoothPlanet p0 c"
  define c2 where "c2 = integrate 20000 smoothPlanet keysSpace dt p1"
  have m: "min (1 / 60) 0.05 = dt" by (simp add: dt_def)
  have k: "key_space keysSpace" by (simp add: keysSpace_def)
  have pf: "posX p0 = 0" "posZ p0 = 0" "posY p0 = h0 - 1" "velX p0 = 0" "velY p0 = 0"
    "inputX p0 = 0" "speed p0 = 0"
    by (simp_all add: p0_def sunkenPlayer_def playerAt_def h0_def)
  have z: "\<not> posZ p0 > 20000 / 2 - 300" by (simp add: pf)
  have uf: "useFrame 20000 smoothPlanet PLAYING keysSpace (1 / 60) sunkenPlayer
            = physics 20000 smoothPlanet keysSpace dt p0"
    using useFrame_playing[OF z, of smoothPlanet keysSpace "1 / 60"] by (simp only: m p0_def)
  have pl: "player (physics 20000 smoothPlanet keysSpace dt p0) = p1"
    by (simp add: physics_player p1_def c_def)
  \<comment> \<open>first frame\<close>
  have ch: "currentHeight c = - 1" by (simp add: c_def integrate_grounded pf h0_def)
  have gr: "isGrounded c" by (simp add: c_def integrate_grounded pf h0_def)
  have j1: "jump c" using k gr ch by (simp add: c_def integrate_jump HOVER_TARGET_def)
  have fY: "forceY c = 3000"
    using k ch gr
    by (simp add: c_def integrate_forceY smoothPlanet_facts pf HOVER_TARGET_def
        HOVER_STIFFNESS_def HOVER_DAMPING_def)
  have vY: "c_velY c = 50 + 250 * dt"
    using j1 by (simp add: c_def integrate_velY fY[unfolded c_def] MASS_def)
  have cs: "clampedSpeed keysSpace dt p0 = 0"
    by (simp add: clampedSpeed_def keysSpace_def pf)
  have dt0: "0 \<le> dt" by (simp add: dt_def)
  have g0: "0 \<le> gravity smoothPlanet" by (simp add: smoothPlanet_facts)
  have sp: "0 \<le> c_speed c" "c_speed c \<le> 100 * dt"
    using integrate_speed_bounds[OF g0 dt0, of keysSpace p0 20000]
    by (simp_all add: cs c_def smoothPlanet_facts)
  define nx where "nx = vx (getTerrainNormal 20000 0 0 smoothPlanet)"
  have nx: "\<bar>nx\<bar> \<le> 1" using getTerrainNormal_bounds[of 20000 0 0 smoothPlanet] by (simp add: nx_def)
  have ix: "c_inputX c = 0"
    by (simp add: c_def integrate_inputX pf keysSpace_def lerp_def)
  have vX: "c_velX c = nx * 200 * dt"
    by (simp add: c_def integrate_velX ix[unfolded c_def] pf smoothPlanet_facts nx_def)
  have X: "nextX c = nx * 200 * dt * dt" using vX by (simp add: c_def integrate_next pf)
  have Z: "nextZ c = (c_speed c + 10) * dt" by (simp add: c_def integrate_next pf)
  have Y: "nextY c = h0 - 1 + (50 + 250 * dt) * dt" using vY by (simp add: c_def integrate_next pf)
  have Xb: "\<bar>nextX c\<bar> \<le> 1" using nx unfolding X dt_def by simp
  then have Xc: "\<bar>nextX c\<bar> < 150" by simp
  have Xs: "0 \<le> (nextX c)\<^sup>2 / 4500" "(nextX c)\<^sup>2 / 4500 \<le> 1 / 4500"
    using Xb by (simp_all add: abs_square_le_1)
  have Zb: "0 \<le> nextZ c" "nextZ c \<le> 0.2"
  proof -
    show "0 \<le> nextZ c" using sp unfolding Z dt_def by simp
    have "(c_speed c + 10) * dt \<le> (100 * dt + 10) * dt"
      using sp by (intro mult_right_mono) (simp_all add: dt_def)
    then show "nextZ c \<le> 0.2" unfolding Z by (simp add: dt_def)
  qed
  define h1 where "h1 = getTerrainHeight 20000 (nextX c) (nextZ c) smoothPlanet"
  define m0 where "m0 = microNoise 0 0 smoothPlanet"
  define m1 where "m1 = microNoise (nextX c) (nextZ c) smoothPlanet"
  have mb: "0 \<le> m0" "m0 < 1" "0 \<le> m1" "m1 < 1"
    using microNoise_bounds by (simp_all add: m0_def m1_def)
  have h0: "h0 = 2800 + m0" by (simp add: h0_def smoothPlanet_height m0_def)
  have h1: "h1 = 2800 - 0.3 * nextZ c - (nextX c)\<^sup>2 / 4500 + m1"
    unfolding h1_def m1_def using smoothPlanet_height[OF Xc] .
  define q where "q = (nextX c)\<^sup>2 / 4500"
  have q: "0 \<le> q" "q \<le> 0.001" using Xs by (simp_all add: q_def)
  have hq: "h1 - h0 = m1 - m0 - 0.3 * nextZ c - q" by (simp add: h0 h1 q_def)
  have hd1: "h1 - h0 < 1" using Zb q mb unfolding hq by simp
  have hd2: "h0 - h1 < 1.07" using Zb q mb hq by simp
  note hd = hd1 hd2
  have nw: "\<not> wallHit 20000 smoothPlanet p0 c"
    using hd by (simp add: wallHit_def pf h1_def[symmetric])
  have p1f: "posX p1 = nextX c" "posZ p1 = nextZ c"
    "posY p1 = (if nextY c < h1 + 0.5 then h1 + 0.5 else nextY c)"
    "velY p1 = (if nextY c < h1 + 0.5 then 0 else c_velY c)"
    using nw by (simp_all add: p1_def collide_fields h1_def)
  have v1: "velY p1 \<noteq> 50" unfolding p1f vY by (simp add: dt_def)
  \<comment> \<open>second frame\<close>
  have z2: "\<not> posZ p1 > 20000 / 2 - 300" using Zb by (simp add: p1f)
  have uf2: "useFrame 20000 smoothPlanet PLAYING keysSpace (1 / 60) p1
             = physics 20000 smoothPlanet keysSpace dt p1"
    using useFrame_playing[OF z2, of smoothPlanet keysSpace "1 / 60"] by (simp only: m)
  have ch2: "currentHeight c2 = posY p1 - h1"
    by (simp add: c2_def integrate_grounded p1f(1,2) h1_def)
  have "posY p1 - h1 < 1.5"
  proof (cases "nextY c < h1 + 0.5")
    case True
    then show ?thesis by (simp add: p1f)
  next
    case False
    then have "posY p1 - h1 = (h0 - h1) - 1 + (50 + 250 * dt) * dt" by (simp add: p1f Y)
    then show ?thesis using hd by (simp add: dt_def)
  qed
  then have ch2b: "currentHeight c2 < 1.5" by (simp add: ch2)
  then have gr2: "isGrounded c2"
    by (simp add: c2_def integrate_grounded)
  have j2: "jump c2" using k gr2 ch2b by (simp add: c2_def integrate_jump HOVER_TARGET_def)
  show ?thesis
    unfolding uf pl uf2
    using k j1 j2 v1 by (simp add: physics_triggers c_def c2_def)
qed

subsection \<open>Grounded flag\<close>

text \<open>
  Claim C6 (grounding). In a frame that runs the physics block (state PLAYING, finish
  line not passed), the grounded flag that the frame computes and stores is true exactly
  when the clearance \<open>y - getTerrainHeight x z\<close> at the start of the frame is below 2.
\<close>

theorem grounded_iff_clearance:
  assumes "\<not> posZ p > wl / 2 - 300"
  shows "wasGrounded (player (useFrame wl planet PLAYING keys delta p))
           \<longleftrightarrow> posY p - getTerrainHeight wl (posX p) (posZ p) planet < 2"
  by (simp add: useFrame_playing[OF assms] physics_player collide_fields integrate_grounded)

theorem grounded_iff_clearance_witness:
  "\<not> posZ (playerAt 1000) > 20000 / 2 - 300 \<and>
   (wasGrounded (player (useFrame 20000 pipePlanet PLAYING noKeys 0.05 (playerAt 1000)))
      \<longleftrightarrow> posY (playerAt 1000)
            - getTerrainHeight 20000 (posX (playerAt 1000)) (posZ (playerAt 1000)) pipePlanet < 2)"
  using grounded_iff_clearance [where p = "playerAt 1000" and wl = 20000 and planet = pipePlanet and keys = noKeys
      and delta = "0.05"]
  by (simp add: playerAt_def)

subsection \<open>Global slope term\<close>

text \<open>
  Claim C7 (global slope term). For a non-zero world length the slope term is
  \<open>(1 - (z + WORLD_LENGTH/2) / WORLD_LENGTH) * mountainHeight\<close>; it equals
  \<open>mountainHeight\<close> at the track start \<open>z = -WORLD_LENGTH/2\<close> and zero at the track end
  \<open>z = +WORLD_LENGTH/2\<close>; and it is added to every planet's result: the height is the
  slope term plus the height the same planet has with \<open>mountainHeight = 0\<close>.
\<close>

theorem slope_term_linear:
  assumes "wl \<noteq> 0"
  shows "slopeHeight wl z p = (1 - (z + wl / 2) / wl) * mountainHeight p \<and>
         slopeHeight wl (- wl / 2) p = mountainHeight p \<and>
         slopeHeight wl (wl / 2) p = 0 \<and>
         getTerrainHeight wl x z p
           = slopeHeight wl z p + getTerrainHeight wl x z (p \<lparr> mountainHeight := 0 \<rparr>)"
proof -
  have a: "slopeHeight wl z p = (1 - (z + wl / 2) / wl) * mountainHeight p"
    by (simp add: slopeHeight_def zProgress_def)
  have b: "slopeHeight wl (- wl / 2) p = mountainHeight p"
    by (simp add: slopeHeight_def zProgress_def)
  have c: "slopeHeight wl (wl / 2) p = 0"
    using assms by (simp add: slopeHeight_def zProgress_def)
  have d: "getTerrainHeight wl x z p
           = slopeHeight wl z p + getTerrainHeight wl x z (p \<lparr> mountainHeight := 0 \<rparr>)"
    by (simp add: getTerrainHeight_def slopeHeight_def profileHeight_def finalNoise_def
        microNoise_def Let_def)
  show ?thesis using a b c d by blast
qed

theorem slope_term_linear_witness:
  "(20000::real) \<noteq> 0 \<and>
   slopeHeight 20000 0 ridgePlanet = 1500 \<and>
   slopeHeight 20000 (- 20000 / 2) ridgePlanet = 3000 \<and>
   slopeHeight 20000 (20000 / 2) ridgePlanet = 0 \<and>
   getTerrainHeight 20000 5 0 ridgePlanet
     = 1500 + getTerrainHeight 20000 5 0 (ridgePlanet \<lparr> mountainHeight := 0 \<rparr>)"
  using slope_term_linear [of 20000 0 ridgePlanet 5]
  by (simp add: ridgePlanet_def)

subsection \<open>Value noise\<close>

text \<open>
  Claim C8 (value noise). \<open>noise x z\<close> is the bilinear blend of the hash values at the
  four corners of the unit cell containing \<open>(x, z)\<close>, weighted by the smoothstep of the
  fractional offsets of \<open>x\<close> and \<open>z\<close>, and it lies in \<open>[0, 1)\<close>.
\<close>

theorem noise_is_smoothstep_bilinear:
  "noise x z =
     spec_bilinear (hash (of_int \<lfloor>x\<rfloor>) (of_int \<lfloor>z\<rfloor>)) (hash (of_int \<lfloor>x\<rfloor> + 1) (of_int \<lfloor>z\<rfloor>))
              (hash (of_int \<lfloor>x\<rfloor>) (of_int \<lfloor>z\<rfloor> + 1)) (hash (of_int \<lfloor>x\<rfloor> + 1) (of_int \<lfloor>z\<rfloor> + 1))
              (spec_smoothstep (fract x)) (spec_smoothstep (fract z)) \<and>
   0 \<le> noise x z \<and> noise x z < 1"
proof -
  have s: "spec_smoothstep t = t * t * (3.0 - 2.0 * t)" for t
    by (simp add: spec_smoothstep_def power2_eq_square power3_eq_cube algebra_simps)
  have "noise x z =
     spec_bilinear (hash (of_int \<lfloor>x\<rfloor>) (of_int \<lfloor>z\<rfloor>)) (hash (of_int \<lfloor>x\<rfloor> + 1) (of_int \<lfloor>z\<rfloor>))
              (hash (of_int \<lfloor>x\<rfloor>) (of_int \<lfloor>z\<rfloor> + 1)) (hash (of_int \<lfloor>x\<rfloor> + 1) (of_int \<lfloor>z\<rfloor> + 1))
              (spec_smoothstep (fract x)) (spec_smoothstep (fract z))"
    unfolding s by (simp add: noise_def Let_def spec_bilinear_def lerp_def algebra_simps)
  then show ?thesis using noise_bounds[of x z] by simp
qed

subsection \<open>Direction of the normal\<close>

text \<open>
  Claim C9 (the normal points up). The vector built inside \<open>getTerrainNormal\<close> before
  normalisation has y-component 4, so its length is positive (the division is never by
  zero), and the returned normal has a positive y-component.
\<close>

theorem normal_points_up:
  "vy (terrainNorm wl x z p) = 4 \<and>
   0 < normLen (terrainNorm wl x z p) \<and>
   0 < vy (getTerrainNormal wl x z p)"
proof -
  have y: "vy (terrainNorm wl x z p) = 4" by (simp add: terrainNorm_def Let_def)
  have l: "0 < normLen (terrainNorm wl x z p)" using normLen_terrainNorm[of wl x z p] by simp
  have "vy (getTerrainNormal wl x z p) = 4 / normLen (terrainNorm wl x z p)"
    by (simp add: getTerrainNormal_def Let_def y)
  then show ?thesis using y l by simp
qed

subsection \<open>Ground clamp\<close>

text \<open>
  Claim C10 (ground clamp). After a frame of the physics block in which the wall branch
  does not fire, the committed position is at least 0.5 above the terrain at the
  committed \<open>(x, z)\<close>.
\<close>

theorem ground_clamp_without_wall:
  assumes "\<not> posZ p > wl / 2 - 300"
    and "\<not> wallHit wl planet p (integrate wl planet keys (min delta 0.05) p)"
  shows "getTerrainHeight wl (posX (player (useFrame wl planet PLAYING keys delta p)))
                            (posZ (player (useFrame wl planet PLAYING keys delta p))) planet + 0.5
         \<le> posY (player (useFrame wl planet PLAYING keys delta p))"
  using assms(2)
  by (simp add: useFrame_playing[OF assms(1)] physics_player collide_fields)

theorem ground_clamp_without_wall_witness:
  "\<not> posZ (playerAt 1000) > 20000 / 2 - 300 \<and>
   \<not> wallHit 20000 pipePlanet (playerAt 1000)
        (integrate 20000 pipePlanet noKeys (min 0.05 0.05) (playerAt 1000)) \<and>
   getTerrainHeight 20000
       (posX (player (useFrame 20000 pipePlanet PLAYING noKeys 0.05 (playerAt 1000))))
       (posZ (player (useFrame 20000 pipePlanet PLAYING noKeys 0.05 (playerAt 1000))))
       pipePlanet + 0.5
     \<le> posY (player (useFrame 20000 pipePlanet PLAYING noKeys 0.05 (playerAt 1000)))"
proof -
  have z: "\<not> posZ (playerAt 1000) > 20000 / 2 - 300" by (simp add: playerAt_def)
  have w: "\<not> wallHit 20000 pipePlanet (playerAt 1000)
        (integrate 20000 pipePlanet noKeys (min 0.05 0.05) (playerAt 1000))"
    using pipePlanet_height[of 20000
        "nextX (integrate 20000 pipePlanet noKeys (min 0.05 0.05) (playerAt 1000))"
        "nextZ (integrate 20000 pipePlanet noKeys (min 0.05 0.05) (playerAt 1000))"]
    by (simp add: wallHit_def playerAt_def)
  show ?thesis
    using z w ground_clamp_without_wall [OF z w] by blast
qed

end
